theory Spec2Isabelle
  imports Complex_Main "HOL-Library.Multiset"
begin

section \<open>Data model (convex/schema.ts)\<close>

text \<open>
  The schema declares two application tables. Strings are lists of characters, Convex
  numbers are reals (the code stores and compares them, it never computes with them),
  document and user identifiers are natural numbers.
\<close>

datatype severity = Low | Moderate | High

datatype status = Analyzing | Completed | Failed

record disease =
  name :: string
  scientificName :: string
  severity :: severity
  symptoms :: "string list"
  causes :: string
  prevention :: "string list"
  treatment :: string
  description :: string

record source_ref =
  title :: string
  url :: string
  snippet :: string

text \<open>
  A row of the \<open>analyses\<close> table. \<open>a_id\<close> and \<open>creationTime\<close> are the system fields
  \<open>_id\<close> and \<open>_creationTime\<close> that the database sets on insert; an optional field of
  the schema is an \<open>option\<close>.
\<close>

record analysis =
  a_id :: nat
  creationTime :: nat
  userId :: "nat option"
  imageUrl :: "string option"
  imageStorageId :: "nat option"
  detectedDisease :: string
  confidence :: real
  a_severity :: severity
  a_symptoms :: "string list"
  a_treatment :: string
  sources :: "source_ref list option"
  status :: status

text \<open>
  The database: the \<open>diseases\<close> table in insertion order (its system fields are never
  read by the code) and the \<open>analyses\<close> table.
\<close>

record db =
  diseases :: "disease list"
  analyses :: "analysis list"

section \<open>Seeding the disease catalog (convex/seedDiseases.ts)\<close>

definition leaf_spot_disease :: disease where
  "leaf_spot_disease = \<lparr>
     name = ''Leaf Spot Disease'',
     scientificName = ''Taphrina maculans'',
     severity = Moderate,
     symptoms = [''Brown or black spots on leaves'', ''Yellowing around spots'',
       ''Premature leaf drop'', ''Reduced plant vigor''],
     causes = ''Fungal infection caused by excessive moisture and poor air circulation. Common in humid conditions and overcrowded plantings.'',
     prevention = [''Ensure proper spacing between plants'', ''Improve air circulation'',
       ''Avoid overhead watering'', ''Remove infected plant debris'',
       ''Apply preventive fungicide sprays''],
     treatment = ''Remove affected leaves immediately. Apply copper-based fungicide or neem oil spray. Improve drainage and reduce watering frequency. Ensure good air circulation around plants.'',
     description = ''A common fungal disease affecting turmeric leaves, characterized by dark spots that can spread rapidly in humid conditions.'' \<rparr>"

definition rhizome_rot :: disease where
  "rhizome_rot = \<lparr>
     name = ''Rhizome Rot'',
     scientificName = ''Pythium aphanidermatum'',
     severity = High,
     symptoms = [''Soft, mushy rhizomes'', ''Foul smell from roots'',
       ''Yellowing and wilting leaves'', ''Stunted growth'', ''Plant collapse''],
     causes = ''Waterlogged soil conditions leading to fungal infection. Poor drainage and overwatering are primary causes.'',
     prevention = [''Ensure excellent drainage'', ''Avoid overwatering'',
       ''Use raised beds in heavy soils'', ''Plant in well-draining soil mix'',
       ''Rotate crops annually''],
     treatment = ''Remove affected plants immediately. Improve soil drainage. Apply fungicide drench with metalaxyl or fosetyl-al. Reduce watering and ensure proper soil aeration.'',
     description = ''A serious fungal disease that attacks the rhizome system, potentially causing complete plant loss if not treated promptly.'' \<rparr>"

definition leaf_blight :: disease where
  "leaf_blight = \<lparr>
     name = ''Leaf Blight'',
     scientificName = ''Colletotrichum capsici'',
     severity = Moderate,
     symptoms = [''Large brown patches on leaves'', ''Leaf margins turning brown'',
       ''Defoliation in severe cases'', ''Reduced rhizome yield''],
     causes = ''Fungal pathogen that thrives in warm, humid conditions. Spread through water splash and contaminated tools.'',
     prevention = [''Use disease-free planting material'', ''Maintain proper plant spacing'',
       ''Apply preventive copper sprays'', ''Remove plant debris'',
       ''Avoid working with wet plants''],
     treatment = ''Apply copper oxychloride or mancozeb fungicide. Remove infected leaves and destroy them. Improve air circulation and reduce leaf wetness duration.'',
     description = ''A foliar disease that can significantly reduce plant health and rhizome production if left untreated.'' \<rparr>"

definition bacterial_wilt :: disease where
  "bacterial_wilt = \<lparr>
     name = ''Bacterial Wilt'',
     scientificName = ''Ralstonia solanacearum'',
     severity = High,
     symptoms = [''Sudden wilting of leaves'', ''Yellowing from bottom up'',
       ''Brown vascular discoloration'', ''Plant death within days'',
       ''No recovery after watering''],
     causes = ''Soil-borne bacterial pathogen that enters through root wounds. Spreads rapidly in warm, moist conditions.'',
     prevention = [''Use certified disease-free rhizomes'', ''Avoid soil from infected areas'',
       ''Practice crop rotation'', ''Maintain soil pH 6.0-7.0'', ''Ensure good drainage''],
     treatment = ''No effective cure once infected. Remove and destroy affected plants immediately. Treat soil with copper sulfate. Plant resistant varieties in future seasons.'',
     description = ''A devastating bacterial disease that can cause rapid plant death and soil contamination for future crops.'' \<rparr>"

definition healthy_plant :: disease where
  "healthy_plant = \<lparr>
     name = ''Healthy Plant'',
     scientificName = ''Curcuma longa'',
     severity = Low,
     symptoms = [''Vibrant green leaves'', ''Strong upright growth'',
       ''No discoloration or spots'', ''Healthy root system''],
     causes = ''Optimal growing conditions with proper nutrition, water management, and disease prevention practices.'',
     prevention = [''Maintain consistent care routine'', ''Monitor for early disease signs'',
       ''Ensure proper nutrition'', ''Regular health inspections'',
       ''Preventive treatments as needed''],
     treatment = ''Continue current care practices. Monitor regularly for any changes. Maintain optimal growing conditions with balanced fertilization and proper watering.'',
     description = ''A healthy turmeric plant showing no signs of disease or stress, indicating optimal growing conditions.'' \<rparr>"

text \<open>The array literal \<open>diseases\<close> of the handler, in its order.\<close>

definition seed_entries :: "disease list" where
  "seed_entries = [leaf_spot_disease, rhizome_rot, leaf_blight, bacterial_wilt, healthy_plant]"

text \<open>\<open>ctx.db.insert("diseases", disease)\<close>: the new row goes after the rows there are.\<close>

definition insert_disease :: "db \<Rightarrow> disease \<Rightarrow> db" where
  "insert_disease d x = d\<lparr>diseases := diseases d @ [x]\<rparr>"

text \<open>
  \<open>ctx.db.query("diseases").first()\<close> is the first row or null; the handler returns
  early when it is a row, and otherwise inserts the entries one by one in a loop. The
  result is the returned message and the database after the mutation.
\<close>

definition seedDiseases :: "db \<Rightarrow> string \<times> db" where
  "seedDiseases d =
     (case diseases d of
        existing # _ \<Rightarrow> (''Diseases already seeded'', d)
      | [] \<Rightarrow> (''Diseases seeded successfully'', foldl insert_disease d seed_entries))"

section \<open>JavaScript values, errors and strings\<close>

text \<open>
  A thrown value: an \<open>Error\<close> with its message (also the errors of the model service and
  of the database), a \<open>TypeError\<close>, the error of Convex's argument validation, or a
  thrown value that is not an \<open>Error\<close> object.
\<close>

datatype error =
    Error string
  | TypeError string
  | ArgumentValidationError string
  | NonError

text \<open>The values \<open>JSON.parse\<close> returns. An object is the list of its own properties.\<close>

datatype json =
    JNull
  | JBool bool
  | JNum real
  | JStr string
  | JArr "json list"
  | JObj "(string \<times> json) list"

text \<open>\<open>s.startsWith(p)\<close> and \<open>s.includes(t)\<close>: \<open>t\<close> occurs in \<open>s\<close> as a contiguous run.\<close>

fun startsWith :: "string \<Rightarrow> string \<Rightarrow> bool" where
  "startsWith s [] = True"
| "startsWith [] (p # ps) = False"
| "startsWith (c # cs) (p # ps) = (c = p \<and> startsWith cs ps)"

fun includes_str :: "string \<Rightarrow> string \<Rightarrow> bool" where
  "includes_str [] t = (t = [])"
| "includes_str (c # cs) t = (startsWith (c # cs) t \<or> includes_str cs t)"

text \<open>\<open>xs.join(sep)\<close>.\<close>

fun join :: "string list \<Rightarrow> string \<Rightarrow> string" where
  "join [] sep = []"
| "join [x] sep = x"
| "join (x # y # ys) sep = x @ sep @ join (y # ys) sep"

text \<open>
  \<open>text.match(/\{[\s\S]*\}/)\<close>: the leftmost match starts at the first opening brace
  and, the star being greedy over every character, ends at the last closing brace after
  it; there is no match when no closing brace follows the first opening brace.
\<close>

definition json_match :: "string \<Rightarrow> string option" where
  "json_match s =
     (let from_brace = dropWhile (\<lambda>c. c \<noteq> CHR ''{'') s;
          span = rev (dropWhile (\<lambda>c. c \<noteq> CHR ''}'') (rev from_brace))
      in if span = [] then None else Some span)"

text \<open>
  Lower-casing of the letters A to Z, every other character unchanged: the instance of
  \<open>toLowerCase\<close> that the concrete examples below run with.
\<close>

definition lower_char :: "char \<Rightarrow> char" where
  "lower_char c =
     (case map_of (zip ''ABCDEFGHIJKLMNOPQRSTUVWXYZ'' ''abcdefghijklmnopqrstuvwxyz'') c of
        Some l \<Rightarrow> l
      | None \<Rightarrow> c)"

definition ascii_toLowerCase :: "string \<Rightarrow> string" where
  "ascii_toLowerCase s = map lower_char s"

section \<open>The environment of the backend functions (convex/analysis.ts)\<close>

text \<open>
  What the handlers get from outside the repository, one field per call:
  \<^item> \<open>getAuthUserId\<close>: the authenticated user, or null;
  \<^item> \<open>clock\<close>: the creation time the database gives to an inserted row;
  \<^item> \<open>toLowerCase\<close> and \<open>JSON_parse\<close>: the built-ins \<open>String.prototype.toLowerCase\<close>
    and \<open>JSON.parse\<close> (\<open>None\<close> when it throws);
  \<^item> \<open>vision_model\<close>: the chat completion of \<open>analyzeImage\<close> on the image (its prompt
    is constant): the call throws, or \<open>response.choices[0]?.message?.content\<close> is a
    string or absent;
  \<^item> \<open>diseases_list\<close>: the query \<open>api.diseases.list\<close> of the module \<open>convex/diseases\<close>,
    which the handler only calls: it throws or returns catalog entries;
  \<^item> \<open>advice_model\<close>: the chat completion of \<open>getTreatmentInfo\<close> on its prompt.
\<close>

record world =
  getAuthUserId :: "nat option"
  clock :: nat
  toLowerCase :: "string \<Rightarrow> string"
  JSON_parse :: "string \<Rightarrow> json option"
  vision_model :: "string \<Rightarrow> error + string option"
  diseases_list :: "error + disease list"
  advice_model :: "string \<Rightarrow> error + string option"

text \<open>The calls a handler makes, in order: the history next to its result.\<close>

datatype event =
    Vision_completion string
  | Advice_completion string
  | Query_diseases_list
  | Insert_analysis nat status
  | Patch_analysis nat status

section \<open>getTreatmentInfo\<close>

record treatment_info =
  ti_treatment :: string
  ti_sources :: "source_ref list"

text \<open>The predicate of \<open>diseases.find\<close>: a substring match in either direction.\<close>

definition name_matches :: "world \<Rightarrow> string \<Rightarrow> disease \<Rightarrow> bool" where
  "name_matches w dis d =
     (includes_str (toLowerCase w (name d)) (toLowerCase w dis) \<or>
      includes_str (toLowerCase w dis) (toLowerCase w (name d)))"

definition newline :: string where
  "newline = [CHR 0x0A]"

definition advice_prompt :: "string \<Rightarrow> string list \<Rightarrow> string" where
  "advice_prompt dis syms =
     ''Provide treatment recommendations for turmeric plant disease: '' @ dis @ newline @
     newline @
     ''Symptoms observed: '' @ join syms '', '' @ newline @
     newline @
     ''Please provide:'' @ newline @
     ''1. Immediate treatment steps'' @ newline @
     ''2. Preventive measures'' @ newline @
     ''3. Organic/sustainable solutions when possible'' @ newline @
     ''4. Timeline for recovery'' @ newline @
     newline @
     ''Format as clear, actionable advice for farmers.''"

definition consult_message :: string where
  "consult_message =
     ''Consult with a local agricultural extension office for specific treatment recommendations.''"

definition unable_message :: string where
  "unable_message =
     ''Unable to fetch treatment information. Please consult with a local agricultural expert or extension office for proper diagnosis and treatment recommendations.''"

text \<open>\<open>content || fallback\<close>: an absent or empty content is falsy.\<close>

definition or_else :: "string option \<Rightarrow> string \<Rightarrow> string" where
  "or_else content fallback =
     (case content of None \<Rightarrow> fallback | Some c \<Rightarrow> if c = [] then fallback else c)"

text \<open>The body of the \<open>try\<close> block.\<close>

definition getTreatmentInfo_try ::
  "world \<Rightarrow> string \<Rightarrow> string list \<Rightarrow> (error + treatment_info) \<times> event list" where
  "getTreatmentInfo_try w dis syms =
     (case diseases_list w of
        Inl e \<Rightarrow> (Inl e, [Query_diseases_list])
      | Inr ds \<Rightarrow>
          (case find (name_matches w dis) ds of
             Some matchedDisease \<Rightarrow>
               (Inr \<lparr>ti_treatment = treatment matchedDisease, ti_sources = []\<rparr>,
                [Query_diseases_list])
           | None \<Rightarrow>
               (case advice_model w (advice_prompt dis syms) of
                  Inl e \<Rightarrow>
                    (Inl e, [Query_diseases_list, Advice_completion (advice_prompt dis syms)])
                | Inr content \<Rightarrow>
                    (Inr \<lparr>ti_treatment = or_else content consult_message, ti_sources = []\<rparr>,
                     [Query_diseases_list, Advice_completion (advice_prompt dis syms)]))))"

text \<open>The handler: the \<open>catch\<close> block turns every error of the body into a result.\<close>

definition getTreatmentInfo ::
  "world \<Rightarrow> string \<Rightarrow> string list \<Rightarrow> (error + treatment_info) \<times> event list" where
  "getTreatmentInfo w dis syms =
     (case getTreatmentInfo_try w dis syms of
        (Inl e, tr) \<Rightarrow> (Inr \<lparr>ti_treatment = unable_message, ti_sources = []\<rparr>, tr)
      | (Inr r, tr) \<Rightarrow> (Inr r, tr))"

section \<open>The mutations and queries on the analyses table\<close>

text \<open>
  \<open>ctx.db.insert("analyses", row)\<close> gives the row an identifier that no row of the table
  has and the current time, and returns the identifier.
\<close>

definition fresh_id :: "analysis list \<Rightarrow> nat" where
  "fresh_id rows = Suc (foldr max (map a_id rows) 0)"

definition db_insert_analysis :: "nat \<Rightarrow> analysis \<Rightarrow> db \<Rightarrow> nat \<times> db" where
  "db_insert_analysis t row d =
     (let i = fresh_id (analyses d)
      in (i, d\<lparr>analyses := analyses d @ [row\<lparr>a_id := i, creationTime := t\<rparr>]\<rparr>))"

text \<open>\<open>ctx.db.get(id)\<close>: the row or null.\<close>

definition db_get :: "db \<Rightarrow> nat \<Rightarrow> analysis option" where
  "db_get d i = find (\<lambda>a. a_id a = i) (analyses d)"

text \<open>\<open>ctx.db.patch(id, updates)\<close> throws when there is no row with the identifier.\<close>

definition db_patch :: "nat \<Rightarrow> (analysis \<Rightarrow> analysis) \<Rightarrow> db \<Rightarrow> error + db" where
  "db_patch i upd d =
     (if i \<in> set (map a_id (analyses d))
      then Inr (d\<lparr>analyses := map (\<lambda>a. if a_id a = i then upd a else a) (analyses d)\<rparr>)
      else Inl (Error ''Update on nonexistent document ID''))"

text \<open>The handler of \<open>createAnalysis\<close>; the status is the caller's argument.\<close>

definition createAnalysis :: "world \<Rightarrow> nat option \<Rightarrow> status \<Rightarrow> db \<Rightarrow> nat \<times> db" where
  "createAnalysis w uid st d =
     db_insert_analysis (clock w)
       \<lparr>a_id = 0, creationTime = 0, userId = uid, imageUrl = None, imageStorageId = None,
        detectedDisease = [], confidence = 0, a_severity = Moderate, a_symptoms = [],
        a_treatment = [], sources = None, status = st\<rparr> d"

text \<open>
  The handler of \<open>updateAnalysis\<close>, on arguments that passed its validators: it patches
  the row with every argument but the identifier.
\<close>

definition updateAnalysis ::
  "nat \<Rightarrow> string \<Rightarrow> real \<Rightarrow> severity \<Rightarrow> string list \<Rightarrow> string \<Rightarrow> source_ref list \<Rightarrow>
   status \<Rightarrow> db \<Rightarrow> error + db" where
  "updateAnalysis analysisId dd cf sv sy tr srcs st d =
     db_patch analysisId
       (\<lambda>a. a\<lparr>detectedDisease := dd, confidence := cf, a_severity := sv, a_symptoms := sy,
               a_treatment := tr, sources := Some srcs, status := st\<rparr>) d"

definition getAnalysis :: "nat \<Rightarrow> db \<Rightarrow> analysis option" where
  "getAnalysis analysisId d = db_get d analysisId"

text \<open>
  \<open>getUserAnalyses\<close>: the index \<open>by_user\<close> restricted to the user's rows, read in
  descending order of creation time, the first ten of them.
\<close>

definition getUserAnalyses :: "nat option \<Rightarrow> db \<Rightarrow> analysis list" where
  "getUserAnalyses auth d =
     (case auth of
        None \<Rightarrow> []
      | Some uid \<Rightarrow>
          take 10 (rev (sort_key creationTime
            (filter (\<lambda>a. userId a = Some uid) (analyses d)))))"

section \<open>analyzeImage\<close>

text \<open>
  Reading one of the properties \<open>detectedDisease\<close>, \<open>confidence\<close>, \<open>severity\<close>,
  \<open>symptoms\<close> of a parsed value: a \<open>TypeError\<close> on null, whose message names the
  property in single quotes, the own property of an object (\<open>None\<close> is undefined), and
  undefined on a number, boolean, string or array, which have no property of these names.
\<close>

definition null_read_message :: "string \<Rightarrow> string" where
  "null_read_message k =
     ''Cannot read properties of null (reading '' @ [CHR 0x27] @ k @ [CHR 0x27] @ '')''"

fun get_prop :: "json \<Rightarrow> string \<Rightarrow> error + json option" where
  "get_prop JNull k = Inl (TypeError (null_read_message k))"
| "get_prop (JObj ps) k = Inr (map_of ps k)"
| "get_prop v k = Inr None"

text \<open>The argument validators \<open>v.string()\<close>, \<open>v.number()\<close>, the union of the three
  severity literals, and \<open>v.array(v.string())\<close>; \<open>None\<close> when the value is refused.\<close>

fun v_string :: "json option \<Rightarrow> string option" where
  "v_string (Some (JStr s)) = Some s"
| "v_string x = None"

fun v_number :: "json option \<Rightarrow> real option" where
  "v_number (Some (JNum r)) = Some r"
| "v_number x = None"

fun v_severity :: "json option \<Rightarrow> severity option" where
  "v_severity (Some (JStr s)) =
     (if s = ''low'' then Some Low
      else if s = ''moderate'' then Some Moderate
      else if s = ''high'' then Some High
      else None)"
| "v_severity x = None"

fun strings_of :: "json list \<Rightarrow> string list option" where
  "strings_of [] = Some []"
| "strings_of (JStr s # xs) = map_option (Cons s) (strings_of xs)"
| "strings_of (x # xs) = None"

fun v_string_array :: "json option \<Rightarrow> string list option" where
  "v_string_array (Some (JArr xs)) = strings_of xs"
| "v_string_array x = None"

text \<open>The placeholder of the inner \<open>catch\<close> block.\<close>

definition fallback_payload :: json where
  "fallback_payload = JObj
     [(''detectedDisease'', JStr ''Analysis Error''),
      (''confidence'', JNum 0),
      (''severity'', JStr ''moderate''),
      (''symptoms'', JArr [JStr ''Unable to parse analysis results'']),
      (''summary'', JStr ''Error processing image analysis'')]"

text \<open>
  The inner \<open>try\<close>: the matched span when the pattern matches, the whole text otherwise,
  is given to \<open>JSON.parse\<close>; when that throws, the result is the placeholder.
\<close>

definition jsonString_of :: "string \<Rightarrow> string" where
  "jsonString_of analysisText =
     (case json_match analysisText of Some m \<Rightarrow> m | None \<Rightarrow> analysisText)"

definition parse_analysis :: "world \<Rightarrow> string \<Rightarrow> json" where
  "parse_analysis w analysisText =
     (case JSON_parse w (jsonString_of analysisText) of
        Some r \<Rightarrow> r
      | None \<Rightarrow> fallback_payload)"

text \<open>
  The arguments of the call of \<open>getTreatmentInfo\<close>: both properties are read, then the
  action's validators check them.
\<close>

definition treatment_args :: "json \<Rightarrow> error + string \<times> string list" where
  "treatment_args r =
     (case get_prop r ''detectedDisease'' of
        Inl e \<Rightarrow> Inl e
      | Inr dd \<Rightarrow>
          (case get_prop r ''symptoms'' of
             Inl e \<Rightarrow> Inl e
           | Inr sy \<Rightarrow>
               (case (v_string dd, v_string_array sy) of
                  (Some dis, Some syms) \<Rightarrow> Inr (dis, syms)
                | _ \<Rightarrow> Inl (ArgumentValidationError ''getTreatmentInfo''))))"

text \<open>
  The call of \<open>updateAnalysis\<close> with status "completed": the four properties are read,
  the mutation's validators check them, and the handler runs.
\<close>

definition persist_result :: "nat \<Rightarrow> json \<Rightarrow> treatment_info \<Rightarrow> db \<Rightarrow> error + db" where
  "persist_result analysisId r t d =
     (case get_prop r ''detectedDisease'' of
        Inl e \<Rightarrow> Inl e
      | Inr dd \<Rightarrow>
     (case get_prop r ''confidence'' of
        Inl e \<Rightarrow> Inl e
      | Inr cf \<Rightarrow>
     (case get_prop r ''severity'' of
        Inl e \<Rightarrow> Inl e
      | Inr sv \<Rightarrow>
     (case get_prop r ''symptoms'' of
        Inl e \<Rightarrow> Inl e
      | Inr sy \<Rightarrow>
          (case (v_string dd, v_number cf, v_severity sv, v_string_array sy) of
             (Some dd', Some cf', Some sv', Some sy') \<Rightarrow>
               updateAnalysis analysisId dd' cf' sv' sy' (ti_treatment t) (ti_sources t)
                 Completed d
           | _ \<Rightarrow> Inl (ArgumentValidationError ''updateAnalysis''))))))"

text \<open>
  The outer \<open>try\<close> block, after the pending row was created. An error leaves the
  database as it was: a mutation that throws commits nothing.
\<close>

definition analyzeImage_try ::
  "world \<Rightarrow> string \<Rightarrow> nat \<Rightarrow> db \<Rightarrow> (error + nat) \<times> db \<times> event list" where
  "analyzeImage_try w imageBase64 analysisId d =
     (case vision_model w imageBase64 of
        Inl e \<Rightarrow> (Inl e, d, [Vision_completion imageBase64])
      | Inr None \<Rightarrow>
          (Inl (Error ''No analysis received from AI''), d, [Vision_completion imageBase64])
      | Inr (Some analysisText) \<Rightarrow>
          (if analysisText = []
           then (Inl (Error ''No analysis received from AI''), d,
                 [Vision_completion imageBase64])
           else
             (let analysisResult = parse_analysis w analysisText
              in case treatment_args analysisResult of
                   Inl e \<Rightarrow> (Inl e, d, [Vision_completion imageBase64])
                 | Inr (dis, syms) \<Rightarrow>
                     (case getTreatmentInfo w dis syms of
                        (Inl e, tr) \<Rightarrow> (Inl e, d, Vision_completion imageBase64 # tr)
                      | (Inr t, tr) \<Rightarrow>
                          (case persist_result analysisId analysisResult t d of
                             Inl e \<Rightarrow> (Inl e, d, Vision_completion imageBase64 # tr)
                           | Inr d' \<Rightarrow>
                               (Inr analysisId, d',
                                Vision_completion imageBase64 # tr @
                                [Patch_analysis analysisId Completed]))))))"

definition retry_message :: string where
  "retry_message = ''Please try again with a clearer image of the turmeric leaf.''"

text \<open>
  The handler: the pending row is created with status "analyzing"; an error of the
  \<open>try\<close> block is answered by the update to "failed" and thrown again. Were that update
  itself to throw, its error would be the handler's.
\<close>

definition analyzeImage ::
  "world \<Rightarrow> string \<Rightarrow> db \<Rightarrow> (error + nat) \<times> db \<times> event list" where
  "analyzeImage w imageBase64 d =
     (case createAnalysis w (getAuthUserId w) Analyzing d of
        (analysisId, d1) \<Rightarrow>
          (case analyzeImage_try w imageBase64 analysisId d1 of
             (Inr r, d2, tr) \<Rightarrow> (Inr r, d2, Insert_analysis analysisId Analyzing # tr)
           | (Inl e, d2, tr) \<Rightarrow>
               (case updateAnalysis analysisId ''Analysis Failed'' 0 Moderate
                       [''Unable to analyze image''] retry_message [] Failed d2 of
                  Inr d3 \<Rightarrow>
                    (Inl e, d3,
                     Insert_analysis analysisId Analyzing # tr @
                     [Patch_analysis analysisId Failed])
                | Inl e' \<Rightarrow> (Inl e', d2, Insert_analysis analysisId Analyzing # tr))))"

text \<open>
  The two rows that the handler itself writes: the pending row of \<open>createAnalysis\<close> with
  identifier \<open>i\<close>, and that row after the update of the \<open>catch\<close> block.
\<close>

definition pending_row :: "world \<Rightarrow> nat \<Rightarrow> analysis" where
  "pending_row w i =
     \<lparr>a_id = i, creationTime = clock w, userId = getAuthUserId w, imageUrl = None,
      imageStorageId = None, detectedDisease = [], confidence = 0, a_severity = Moderate,
      a_symptoms = [], a_treatment = [], sources = None, status = Analyzing\<rparr>"

definition failed_row :: "world \<Rightarrow> nat \<Rightarrow> analysis" where
  "failed_row w i =
     (pending_row w i)\<lparr>detectedDisease := ''Analysis Failed'', confidence := 0,
        a_severity := Moderate, a_symptoms := [''Unable to analyze image''],
        a_treatment := retry_message, sources := Some [], status := Failed\<rparr>"

text \<open>The writes to the analyses table among the events of a run.\<close>

fun is_write :: "event \<Rightarrow> bool" where
  "is_write (Insert_analysis i st) = True"
| "is_write (Patch_analysis i st) = True"
| "is_write ev = False"

definition db_writes :: "event list \<Rightarrow> event list" where
  "db_writes tr = filter is_write tr"

section \<open>The upload handler of the client (src/App.tsx)\<close>

datatype AppStatus = IDLE | ANALYZING | SEARCHING | COMPLETED | ERROR

record upload_file =
  file_type :: string
  file_size :: nat

text \<open>The component state that the upload handler and the reader's callbacks write.\<close>

record ui_state =
  ui_status :: AppStatus
  selectedImage :: "string option"
  ui_error :: "string option"

text \<open>
  What a handler asks the browser to do: read the file (the reader then reports the
  data URL, the base64 conversion, or an error), start a timer, call the backend action.
\<close>

datatype effect =
    ReadAsDataURL upload_file
  | SetTimeout nat
  | Call_analyzeImage string

text \<open>\<open>err instanceof Error ? err.message : 'Unknown error'\<close>.\<close>

definition error_message :: "error \<Rightarrow> string" where
  "error_message err =
     (case err of
        Error m \<Rightarrow> m
      | TypeError m \<Rightarrow> m
      | ArgumentValidationError m \<Rightarrow> m
      | NonError \<Rightarrow> ''Unknown error'')"

text \<open>
  \<open>handleImageUpload\<close> up to its return. \<open>thrown\<close> is what creating the reader or
  starting the read throws, if anything; \<open>None\<close> for the file is a null argument.
\<close>

definition handleImageUpload ::
  "error option \<Rightarrow> upload_file option \<Rightarrow> ui_state \<Rightarrow> ui_state \<times> effect list" where
  "handleImageUpload thrown file s =
     (case file of
        None \<Rightarrow> (s, [])
      | Some f \<Rightarrow>
          if \<not> startsWith (file_type f) ''image/''
          then (s\<lparr>ui_error := Some ''Please select a valid image file'', ui_status := ERROR\<rparr>, [])
          else if file_size f > 10 * 1024 * 1024
          then (s\<lparr>ui_error := Some ''Image size must be less than 10MB'', ui_status := ERROR\<rparr>, [])
          else
            (case thrown of
               None \<Rightarrow> (s\<lparr>ui_error := None, ui_status := ANALYZING\<rparr>, [ReadAsDataURL f])
             | Some err \<Rightarrow>
                 (s\<lparr>ui_error := Some (''Upload failed: '' @ error_message err),
                    ui_status := ERROR\<rparr>, [])))"

text \<open>
  The reader's callbacks. \<open>onload\<close> is modelled up to the call of the backend action,
  which is the last thing it starts; the timer and the action's answer come later.
\<close>

definition reader_onload :: "string \<Rightarrow> ui_state \<Rightarrow> ui_state \<times> effect list" where
  "reader_onload base64 s =
     (s\<lparr>selectedImage := Some base64, ui_status := SEARCHING\<rparr>,
      [SetTimeout 2000, Call_analyzeImage base64])"

definition reader_onerror :: "ui_state \<Rightarrow> ui_state \<times> effect list" where
  "reader_onerror s = (s\<lparr>ui_error := Some ''Failed to read image file'', ui_status := ERROR\<rparr>, [])"

fun is_read :: "effect \<Rightarrow> bool" where
  "is_read (ReadAsDataURL f) = True"
| "is_read eff = False"

text \<open>
  One upload from the handler's call to the reader's callback: the callback runs only
  when the handler started a read; \<open>read\<close> is the data URL, or \<open>None\<close> when reading fails.
\<close>

definition upload_session ::
  "error option \<Rightarrow> string option \<Rightarrow> upload_file option \<Rightarrow> ui_state \<Rightarrow>
   ui_state \<times> effect list" where
  "upload_session thrown read file s =
     (case handleImageUpload thrown file s of
        (s1, effs) \<Rightarrow>
          if list_ex is_read effs
          then (case (case read of Some base64 \<Rightarrow> reader_onload base64 s1
                               | None \<Rightarrow> reader_onerror s1) of
                  (s2, effs2) \<Rightarrow> (s2, effs @ effs2))
          else (s1, effs))"

section \<open>Concrete inputs\<close>

text \<open>
  The inputs of the examples. \<open>example_parse\<close> is \<open>JSON.parse\<close> on the texts the
  examples give it: the text \<open>null\<close> parses to null, and the other texts are not JSON.
  In \<open>example_world\<close> a user is signed in, the catalog is the seeded one, and both model
  calls answer with prose.
\<close>

definition example_parse :: "string \<Rightarrow> json option" where
  "example_parse s = (if s = ''null'' then Some JNull else None)"

definition example_world :: world where
  "example_world =
     \<lparr>getAuthUserId = Some 7, clock = 100, toLowerCase = ascii_toLowerCase,
      JSON_parse = example_parse,
      vision_model = (\<lambda>img. Inr (Some ''The leaf looks unwell'')),
      diseases_list = Inr seed_entries,
      advice_model = (\<lambda>p. Inr (Some ''Keep the leaves dry.''))\<rparr>"

definition empty_db :: db where
  "empty_db = \<lparr>diseases = [], analyses = []\<rparr>"

text \<open>A finished analysis of user \<open>uid\<close>, created at time \<open>i\<close> with identifier \<open>i\<close>.\<close>

definition example_row :: "nat \<Rightarrow> nat \<Rightarrow> analysis" where
  "example_row uid i =
     \<lparr>a_id = i, creationTime = i, userId = Some uid, imageUrl = None,
      imageStorageId = None, detectedDisease = ''Rhizome Rot'', confidence = 90,
      a_severity = High, a_symptoms = [''Stunted growth''], a_treatment = ''Improve drainage.'',
      sources = Some [], status = Completed\<rparr>"

text \<open>Eleven analyses of user 7 and one of user 8, in the order of their creation.\<close>

definition example_db :: db where
  "example_db =
     \<lparr>diseases = [],
      analyses = [example_row 7 1, example_row 7 2, example_row 7 3, example_row 8 4,
        example_row 7 5, example_row 7 6, example_row 7 7, example_row 7 8, example_row 7 9,
        example_row 7 10, example_row 7 11, example_row 7 12]\<rparr>"

text \<open>
  A catalog entry with an empty treatment text, which the schema's \<open>v.string()\<close> admits,
  and an environment whose catalog query returns it.
\<close>

definition blank_entry :: disease where
  "blank_entry =
     \<lparr>name = ''Leaf Rust'', scientificName = ''Puccinia'', severity = Moderate,
      symptoms = [''Orange pustules''], causes = [], prevention = [], treatment = [],
      description = []\<rparr>"

definition blank_world :: world where
  "blank_world = example_world\<lparr>diseases_list := Inr [blank_entry]\<rparr>"

definition pdf_file :: upload_file where
  "pdf_file = \<lparr>file_type = ''application/pdf'', file_size = 10485761\<rparr>"

definition idle_state :: ui_state where
  "idle_state = \<lparr>ui_status = IDLE, selectedImage = None, ui_error = None\<rparr>"

section \<open>Properties of seeding\<close>

lemma foldl_insert_disease:
  "foldl insert_disease d xs = d\<lparr>diseases := diseases d @ xs\<rparr>"
  by (induction xs arbitrary: d) (simp_all add: insert_disease_def)

lemma seed_entries_nonempty: "seed_entries \<noteq> []"
  by (simp add: seed_entries_def)

lemma seedDiseases_on_empty:
  "diseases d = [] \<Longrightarrow>
   seedDiseases d = (''Diseases seeded successfully'', d\<lparr>diseases := seed_entries\<rparr>)"
  by (simp add: seedDiseases_def foldl_insert_disease)

lemma seedDiseases_on_seeded:
  "diseases d \<noteq> [] \<Longrightarrow> seedDiseases d = (''Diseases already seeded'', d)"
  by (cases "diseases d") (simp_all add: seedDiseases_def)

text \<open>
  C5. Seeding is idempotent. On a database whose catalog has at least one entry,
  \<open>seedDiseases\<close> leaves the database as it is and returns the message
  "Diseases already seeded". On an empty catalog it makes the catalog the five fixed
  entries, in order, and nothing else changes. A second run after any first run
  changes nothing and reports "Diseases already seeded", so two runs leave the database
  that one run leaves.
\<close>

theorem seedDiseases_idempotent:
  "(diseases d \<noteq> [] \<longrightarrow> seedDiseases d = (''Diseases already seeded'', d)) \<and>
   (diseases d = [] \<longrightarrow>
      seedDiseases d = (''Diseases seeded successfully'', d\<lparr>diseases := seed_entries\<rparr>)) \<and>
   length seed_entries = 5 \<and>
   seedDiseases (snd (seedDiseases d)) = (''Diseases already seeded'', snd (seedDiseases d))"
proof -
  have again: "seedDiseases (snd (seedDiseases d)) =
      (''Diseases already seeded'', snd (seedDiseases d))"
  proof (cases "diseases d = []")
    case True
    then have "diseases (snd (seedDiseases d)) \<noteq> []"
      by (simp add: seedDiseases_on_empty seed_entries_nonempty)
    then show ?thesis by (rule seedDiseases_on_seeded)
  next
    case False
    then show ?thesis by (simp add: seedDiseases_on_seeded)
  qed
  have "length seed_entries = 5" by (simp add: seed_entries_def)
  with again show ?thesis
    by (simp add: seedDiseases_on_empty seedDiseases_on_seeded)
qed

theorem seedDiseases_idempotent_witness:
  "diseases \<lparr>diseases = [], analyses = []\<rparr> = [] \<and>
   seedDiseases \<lparr>diseases = [], analyses = []\<rparr> =
     (''Diseases seeded successfully'', \<lparr>diseases = seed_entries, analyses = []\<rparr>) \<and>
   diseases \<lparr>diseases = [healthy_plant], analyses = []\<rparr> \<noteq> [] \<and>
   seedDiseases \<lparr>diseases = [healthy_plant], analyses = []\<rparr> =
     (''Diseases already seeded'', \<lparr>diseases = [healthy_plant], analyses = []\<rparr>)"
  using seedDiseases_idempotent [of "\<lparr>diseases = [], analyses = []\<rparr>"]
    seedDiseases_idempotent [of "\<lparr>diseases = [healthy_plant], analyses = []\<rparr>"]
  by simp

section \<open>Properties of the string functions\<close>

text \<open>The two searches are the prefix and the contiguous-substring relations.\<close>

lemma startsWith_iff: "startsWith s p \<longleftrightarrow> (\<exists>q. s = p @ q)"
  by (induction s p rule: startsWith.induct) auto

lemma includes_str_iff: "includes_str s t \<longleftrightarrow> (\<exists>p q. s = p @ t @ q)"
proof (induction s)
  case Nil
  show ?case by simp
next
  case (Cons c cs)
  show ?case
  proof
    assume "includes_str (c # cs) t"
    then consider "startsWith (c # cs) t" | "includes_str cs t" by auto
    then show "\<exists>p q. c # cs = p @ t @ q"
    proof cases
      case 1
      then obtain q where "c # cs = t @ q" by (auto simp: startsWith_iff)
      then have "c # cs = [] @ t @ q" by simp
      then show ?thesis by blast
    next
      case 2
      then obtain p q where "cs = p @ t @ q" using Cons.IH by blast
      then have "c # cs = (c # p) @ t @ q" by simp
      then show ?thesis by blast
    qed
  next
    assume "\<exists>p q. c # cs = p @ t @ q"
    then obtain p q where pq: "c # cs = p @ t @ q" by blast
    show "includes_str (c # cs) t"
    proof (cases p)
      case Nil
      with pq have "startsWith (c # cs) t" by (auto simp: startsWith_iff)
      then show ?thesis by simp
    next
      case (Cons a p')
      with pq have "cs = p' @ t @ q" by simp
      then have "includes_str cs t" using Cons.IH by blast
      then show ?thesis by simp
    qed
  qed
qed

text \<open>
  The match of the pattern, when there is one, runs from the first opening brace of the
  text to its last closing brace; there is none when no closing brace follows an
  opening brace.
\<close>

lemma json_match_Some:
  assumes "json_match s = Some m"
  shows "\<exists>pre post. s = pre @ m @ post \<and> CHR ''{'' \<notin> set pre \<and> CHR ''}'' \<notin> set post \<and>
     m \<noteq> [] \<and> hd m = CHR ''{'' \<and> last m = CHR ''}''"
proof -
  let ?pre = "takeWhile (\<lambda>c. c \<noteq> CHR ''{'') s"
  let ?rest = "dropWhile (\<lambda>c. c \<noteq> CHR ''{'') s"
  let ?tail = "takeWhile (\<lambda>c. c \<noteq> CHR ''}'') (rev ?rest)"
  let ?span = "dropWhile (\<lambda>c. c \<noteq> CHR ''}'') (rev ?rest)"
  define post where "post = rev ?tail"
  from assms have m: "m = rev ?span" "?span \<noteq> []"
    by (auto simp: json_match_def Let_def split: if_splits)
  have "?rest = rev (rev ?rest)" by simp
  also have "rev ?rest = ?tail @ ?span" by (simp only: takeWhile_dropWhile_id)
  also have "rev (?tail @ ?span) = rev ?span @ rev ?tail" by (rule rev_append)
  finally have whole: "?rest = m @ post" by (simp only: m(1) post_def)
  have "s = ?pre @ ?rest" by (simp only: takeWhile_dropWhile_id)
  then have s: "s = ?pre @ m @ post" by (simp only: whole)
  have pre: "CHR ''{'' \<notin> set ?pre" by (auto dest: set_takeWhileD)
  have post: "CHR ''}'' \<notin> set post" unfolding post_def by (auto dest: set_takeWhileD)
  from m have nonempty: "m \<noteq> []" by simp
  have "hd ?span = CHR ''}''"
    using m(2) hd_dropWhile [of "\<lambda>c. c \<noteq> CHR ''}''" "rev ?rest"] by simp
  then have last: "last m = CHR ''}''" using m by (simp add: last_rev)
  from nonempty have "m @ post \<noteq> []" "hd (m @ post) = hd m" by simp_all
  then have "?rest \<noteq> []" "hd ?rest = hd m" by (simp_all add: whole)
  then have first: "hd m = CHR ''{''" using hd_dropWhile [of "\<lambda>c. c \<noteq> CHR ''{''" s] by simp
  from s pre post nonempty first last show ?thesis by blast
qed

lemma json_match_None:
  assumes "json_match s = None"
  shows "\<not> (\<exists>a b c. s = a @ CHR ''{'' # b @ CHR ''}'' # c)"
proof
  assume "\<exists>a b c. s = a @ CHR ''{'' # b @ CHR ''}'' # c"
  then obtain a b c where s: "s = a @ CHR ''{'' # b @ CHR ''}'' # c" by blast
  let ?from = "dropWhile (\<lambda>c. c \<noteq> CHR ''{'') s"
  have "CHR ''}'' \<in> set ?from"
  proof -
    have "\<exists>a' . ?from = a' @ CHR ''{'' # b @ CHR ''}'' # c"
      unfolding s
    proof (induction a)
      case Nil
      show ?case by simp
    next
      case (Cons x a)
      show ?case
      proof (cases "x = CHR ''{''")
        case True
        then have "dropWhile (\<lambda>c. c \<noteq> CHR ''{'') ((x # a) @ CHR ''{'' # b @ CHR ''}'' # c) =
            (x # a) @ CHR ''{'' # b @ CHR ''}'' # c" by simp
        then show ?thesis by blast
      next
        case False
        with Cons show ?thesis by simp
      qed
    qed
    then show ?thesis by auto
  qed
  then have "CHR ''}'' \<in> set (rev ?from)" by simp
  then have "dropWhile (\<lambda>c. c \<noteq> CHR ''}'') (rev ?from) \<noteq> []"
    by (auto simp: dropWhile_eq_Nil_conv)
  moreover from assms have "dropWhile (\<lambda>c. c \<noteq> CHR ''}'') (rev ?from) = []"
    by (simp add: json_match_def Let_def split: if_splits)
  ultimately show False by blast
qed

section \<open>Properties of getTreatmentInfo\<close>

text \<open>The predicate of the catalog search, in terms of substrings.\<close>

lemma name_matches_iff:
  "name_matches w dis d \<longleftrightarrow>
     (\<exists>p q. toLowerCase w (name d) = p @ toLowerCase w dis @ q) \<or>
     (\<exists>p q. toLowerCase w dis = p @ toLowerCase w (name d) @ q)"
  by (simp add: name_matches_def includes_str_iff)

lemma find_first_match:
  "P m \<Longrightarrow> \<forall>x \<in> set pre. \<not> P x \<Longrightarrow> find P (pre @ m # post) = Some m"
  by (induction pre) auto

lemma or_else_nonempty: "fb \<noteq> [] \<Longrightarrow> or_else c fb \<noteq> []"
  by (simp add: or_else_def split: option.splits)

lemma find_Some_member: "find P xs = Some x \<Longrightarrow> x \<in> set xs"
  by (auto simp: find_Some_iff)

lemma unable_message_nonempty: "unable_message \<noteq> []"
  by (simp add: unable_message_def)

lemma consult_message_nonempty: "consult_message \<noteq> []"
  by (simp add: consult_message_def)

lemma getTreatmentInfo_returns:
  "\<exists>r tr. getTreatmentInfo w dis syms = (Inr r, tr) \<and> ti_sources r = [] \<and> db_writes tr = []"
  by (simp add: getTreatmentInfo_def getTreatmentInfo_try_def db_writes_def
      split: sum.splits option.splits)

lemma getTreatmentInfo_query_error:
  "diseases_list w = Inl e \<Longrightarrow>
   getTreatmentInfo w dis syms =
     (Inr \<lparr>ti_treatment = unable_message, ti_sources = []\<rparr>, [Query_diseases_list])"
  by (simp add: getTreatmentInfo_def getTreatmentInfo_try_def)

lemma getTreatmentInfo_found:
  "diseases_list w = Inr ds \<Longrightarrow> find (name_matches w dis) ds = Some m \<Longrightarrow>
   getTreatmentInfo w dis syms =
     (Inr \<lparr>ti_treatment = treatment m, ti_sources = []\<rparr>, [Query_diseases_list])"
  by (simp add: getTreatmentInfo_def getTreatmentInfo_try_def)

lemma getTreatmentInfo_model_error:
  "diseases_list w = Inr ds \<Longrightarrow> find (name_matches w dis) ds = None \<Longrightarrow>
   advice_model w (advice_prompt dis syms) = Inl e \<Longrightarrow>
   getTreatmentInfo w dis syms =
     (Inr \<lparr>ti_treatment = unable_message, ti_sources = []\<rparr>,
      [Query_diseases_list, Advice_completion (advice_prompt dis syms)])"
  by (simp add: getTreatmentInfo_def getTreatmentInfo_try_def)

lemma getTreatmentInfo_advice:
  "diseases_list w = Inr ds \<Longrightarrow> find (name_matches w dis) ds = None \<Longrightarrow>
   advice_model w (advice_prompt dis syms) = Inr content \<Longrightarrow>
   getTreatmentInfo w dis syms =
     (Inr \<lparr>ti_treatment = or_else content consult_message, ti_sources = []\<rparr>,
      [Query_diseases_list, Advice_completion (advice_prompt dis syms)])"
  by (simp add: getTreatmentInfo_def getTreatmentInfo_try_def)

lemma getTreatmentInfo_nonempty:
  assumes "\<forall>ds. diseases_list w = Inr ds \<longrightarrow> (\<forall>d \<in> set ds. treatment d \<noteq> [])"
    and "fst (getTreatmentInfo w dis syms) = Inr r"
  shows "ti_treatment r \<noteq> []"
proof (cases "diseases_list w")
  case (Inl e)
  from getTreatmentInfo_query_error [OF Inl, of dis syms] assms(2)
  have "r = \<lparr>ti_treatment = unable_message, ti_sources = []\<rparr>" by simp
  then show ?thesis by (simp add: unable_message_nonempty)
next
  case (Inr ds)
  show ?thesis
  proof (cases "find (name_matches w dis) ds")
    case (Some m)
    from getTreatmentInfo_found [OF Inr Some, of syms] assms(2)
    have r: "r = \<lparr>ti_treatment = treatment m, ti_sources = []\<rparr>" by simp
    from Some have "m \<in> set ds" by (rule find_Some_member)
    with assms(1) Inr have "treatment m \<noteq> []" by blast
    with r show ?thesis by simp
  next
    case None
    show ?thesis
    proof (cases "advice_model w (advice_prompt dis syms)")
      case (Inl e)
      from getTreatmentInfo_model_error [OF Inr None Inl] assms(2)
      have "r = \<lparr>ti_treatment = unable_message, ti_sources = []\<rparr>" by simp
      then show ?thesis by (simp add: unable_message_nonempty)
    next
      case content: (Inr content)
      from getTreatmentInfo_advice [OF Inr None content] assms(2)
      have "r = \<lparr>ti_treatment = or_else content consult_message, ti_sources = []\<rparr>" by simp
      then show ?thesis by (simp add: or_else_nonempty consult_message_nonempty)
    qed
  qed
qed






lemma getTreatmentInfo_empty_iff:
  assumes "fst (getTreatmentInfo w dis syms) = Inr r"
  shows "(ti_treatment r = []) =
     (\<exists>ds m. diseases_list w = Inr ds \<and> find (name_matches w dis) ds = Some m \<and>
        treatment m = [])"
proof (cases "diseases_list w")
  case (Inl e)
  from getTreatmentInfo_query_error [OF Inl, of dis syms] assms
  have "r = \<lparr>ti_treatment = unable_message, ti_sources = []\<rparr>" by simp
  with Inl show ?thesis by (simp add: unable_message_nonempty)
next
  case (Inr ds)
  show ?thesis
  proof (cases "find (name_matches w dis) ds")
    case (Some m)
    from getTreatmentInfo_found [OF Inr Some, of syms] assms
    have "r = \<lparr>ti_treatment = treatment m, ti_sources = []\<rparr>" by simp
    with Inr Some show ?thesis by simp
  next
    case None
    have "ti_treatment r \<noteq> []"
    proof (cases "advice_model w (advice_prompt dis syms)")
      case (Inl e)
      from getTreatmentInfo_model_error [OF Inr None Inl] assms
      have "r = \<lparr>ti_treatment = unable_message, ti_sources = []\<rparr>" by simp
      then show ?thesis by (simp add: unable_message_nonempty)
    next
      case content: (Inr content)
      from getTreatmentInfo_advice [OF Inr None content] assms
      have "r = \<lparr>ti_treatment = or_else content consult_message, ti_sources = []\<rparr>" by simp
      then show ?thesis by (simp add: or_else_nonempty consult_message_nonempty)
    qed
    with Inr None show ?thesis by simp
  qed
qed

text \<open>
  C10, as the code has it. \<open>getTreatmentInfo\<close> never throws: for every environment,
  disease name and symptom list it returns a result, and the result's sources list is
  empty. When the catalog query throws, or when no entry matches and the model call
  throws, the result is the fixed message "Unable to fetch treatment information. ..."
  with an empty sources list. The treatment string of the result is empty in one case
  only: the first matching catalog entry has an empty treatment, which is returned as
  it is. So the treatment is not empty whenever no entry that the query returns has an
  empty treatment, as is the case for the five seeded entries.
\<close>

theorem getTreatmentInfo_total:
  "(\<exists>r. fst (getTreatmentInfo w dis syms) = Inr r \<and> ti_sources r = []) \<and>
   (diseases_list w = Inl e \<longrightarrow>
      fst (getTreatmentInfo w dis syms) =
        Inr \<lparr>ti_treatment = ''Unable to fetch treatment information. Please consult with a local agricultural expert or extension office for proper diagnosis and treatment recommendations.'',
             ti_sources = []\<rparr>) \<and>
   (diseases_list w = Inr ds \<and> find (name_matches w dis) ds = None \<and>
    advice_model w (advice_prompt dis syms) = Inl e \<longrightarrow>
      fst (getTreatmentInfo w dis syms) =
        Inr \<lparr>ti_treatment = ''Unable to fetch treatment information. Please consult with a local agricultural expert or extension office for proper diagnosis and treatment recommendations.'',
             ti_sources = []\<rparr>) \<and>
   (\<forall>r. fst (getTreatmentInfo w dis syms) = Inr r \<longrightarrow>
      (ti_treatment r = []) =
        (\<exists>ds m. diseases_list w = Inr ds \<and> find (name_matches w dis) ds = Some m \<and>
           treatment m = [])) \<and>
   ((\<forall>ds. diseases_list w = Inr ds \<longrightarrow> (\<forall>d \<in> set ds. treatment d \<noteq> [])) \<longrightarrow>
      (\<forall>r. fst (getTreatmentInfo w dis syms) = Inr r \<longrightarrow> ti_treatment r \<noteq> []))"
proof (intro conjI impI allI)
  show "\<exists>r. fst (getTreatmentInfo w dis syms) = Inr r \<and> ti_sources r = []"
    using getTreatmentInfo_returns [of w dis syms] by auto
next
  assume "diseases_list w = Inl e"
  from getTreatmentInfo_query_error [OF this, of dis syms]
  show "fst (getTreatmentInfo w dis syms) =
        Inr \<lparr>ti_treatment = ''Unable to fetch treatment information. Please consult with a local agricultural expert or extension office for proper diagnosis and treatment recommendations.'',
             ti_sources = []\<rparr>"
    by (simp add: unable_message_def)
next
  assume "diseases_list w = Inr ds \<and> find (name_matches w dis) ds = None \<and>
    advice_model w (advice_prompt dis syms) = Inl e"
  then have "getTreatmentInfo w dis syms =
     (Inr \<lparr>ti_treatment = unable_message, ti_sources = []\<rparr>,
      [Query_diseases_list, Advice_completion (advice_prompt dis syms)])"
    using getTreatmentInfo_model_error [of w ds dis syms e] by blast
  then show "fst (getTreatmentInfo w dis syms) =
        Inr \<lparr>ti_treatment = ''Unable to fetch treatment information. Please consult with a local agricultural expert or extension office for proper diagnosis and treatment recommendations.'',
             ti_sources = []\<rparr>"
    by (simp add: unable_message_def)
next
  fix r
  assume "fst (getTreatmentInfo w dis syms) = Inr r"
  then show "(ti_treatment r = []) =
        (\<exists>ds m. diseases_list w = Inr ds \<and> find (name_matches w dis) ds = Some m \<and>
           treatment m = [])"
    by (rule getTreatmentInfo_empty_iff)
next
  fix r
  assume "\<forall>ds. diseases_list w = Inr ds \<longrightarrow> (\<forall>d \<in> set ds. treatment d \<noteq> [])"
    and "fst (getTreatmentInfo w dis syms) = Inr r"
  then show "ti_treatment r \<noteq> []" by (rule getTreatmentInfo_nonempty)
qed

lemma seed_treatments_nonempty: "list_all (\<lambda>d. treatment d \<noteq> []) seed_entries"
  by (simp add: seed_entries_def leaf_spot_disease_def rhizome_rot_def leaf_blight_def
      bacterial_wilt_def healthy_plant_def)

theorem getTreatmentInfo_total_witness:
  "diseases_list (example_world\<lparr>diseases_list := Inl (Error ''query failed'')\<rparr>) =
     Inl (Error ''query failed'') \<and>
   fst (getTreatmentInfo (example_world\<lparr>diseases_list := Inl (Error ''query failed'')\<rparr>)
          ''Rust'' [''Orange pustules'']) =
     Inr \<lparr>ti_treatment = ''Unable to fetch treatment information. Please consult with a local agricultural expert or extension office for proper diagnosis and treatment recommendations.'', ti_sources = []\<rparr> \<and>
   find (name_matches
          (example_world\<lparr>diseases_list := Inr [],
             advice_model := (\<lambda>p. Inl (Error ''model unavailable''))\<rparr>) ''Rust'') [] = None \<and>
   fst (getTreatmentInfo
          (example_world\<lparr>diseases_list := Inr [],
             advice_model := (\<lambda>p. Inl (Error ''model unavailable''))\<rparr>)
          ''Rust'' [''Orange pustules'']) =
     Inr \<lparr>ti_treatment = ''Unable to fetch treatment information. Please consult with a local agricultural expert or extension office for proper diagnosis and treatment recommendations.'', ti_sources = []\<rparr> \<and>
   list_all (\<lambda>d. treatment d \<noteq> []) seed_entries \<and>
   (\<exists>r. fst (getTreatmentInfo example_world ''Rust'' [''Orange pustules'']) = Inr r \<and>
        ti_sources r = [] \<and> ti_treatment r \<noteq> [])"
proof -
  let ?w1 = "example_world\<lparr>diseases_list := Inl (Error ''query failed'')\<rparr>"
  let ?w2 = "example_world\<lparr>diseases_list := Inr [],
      advice_model := (\<lambda>p. Inl (Error ''model unavailable''))\<rparr>"
  have seeded: "\<forall>ds. diseases_list example_world = Inr ds \<longrightarrow>
      (\<forall>d \<in> set ds. treatment d \<noteq> [])"
    using seed_treatments_nonempty by (simp add: example_world_def list_all_iff)
  have one: "fst (getTreatmentInfo ?w1 ''Rust'' [''Orange pustules'']) =
      Inr \<lparr>ti_treatment = ''Unable to fetch treatment information. Please consult with a local agricultural expert or extension office for proper diagnosis and treatment recommendations.'', ti_sources = []\<rparr>"
    using getTreatmentInfo_total
      [where w = ?w1 and dis = "''Rust''" and syms = "[''Orange pustules'']"
        and e = "Error ''query failed''"]
    by simp
  have two: "fst (getTreatmentInfo ?w2 ''Rust'' [''Orange pustules'']) =
      Inr \<lparr>ti_treatment = ''Unable to fetch treatment information. Please consult with a local agricultural expert or extension office for proper diagnosis and treatment recommendations.'', ti_sources = []\<rparr>"
    using getTreatmentInfo_total
      [where w = ?w2 and dis = "''Rust''" and syms = "[''Orange pustules'']"
        and e = "Error ''model unavailable''" and ds = "[]"]
    by simp
  have three: "\<exists>r. fst (getTreatmentInfo example_world ''Rust'' [''Orange pustules'']) = Inr r \<and>
      ti_sources r = [] \<and> ti_treatment r \<noteq> []"
    using seeded getTreatmentInfo_total
      [where w = example_world and dis = "''Rust''" and syms = "[''Orange pustules'']"]
    by blast
  from one two three seed_treatments_nonempty show ?thesis by simp
qed

text \<open>
  C10 as stated fails where a matching catalog entry has an empty treatment: with the
  entry "Leaf Rust" of \<open>blank_world\<close> the result for the detected name "leaf rust" is
  the entry's empty text.
\<close>

theorem getTreatmentInfo_empty_counterexample:
  "diseases_list blank_world = Inr [blank_entry] \<and>
   name_matches blank_world ''leaf rust'' blank_entry \<and>
   treatment blank_entry = [] \<and>
   getTreatmentInfo blank_world ''leaf rust'' [''Orange pustules''] =
     (Inr \<lparr>ti_treatment = [], ti_sources = []\<rparr>, [Query_diseases_list])"
proof -
  have catalog: "diseases_list blank_world = Inr [blank_entry]"
    by (simp add: blank_world_def)
  have hit: "name_matches blank_world ''leaf rust'' blank_entry"
    by (simp add: name_matches_def blank_world_def example_world_def blank_entry_def
        ascii_toLowerCase_def lower_char_def)
  have blank: "treatment blank_entry = []" by (simp add: blank_entry_def)
  from hit have "find (name_matches blank_world ''leaf rust'') [blank_entry] = Some blank_entry"
    by simp
  with catalog have "getTreatmentInfo blank_world ''leaf rust'' [''Orange pustules''] =
      (Inr \<lparr>ti_treatment = treatment blank_entry, ti_sources = []\<rparr>, [Query_diseases_list])"
    by (rule getTreatmentInfo_found)
  with catalog hit blank show ?thesis by simp
qed

section \<open>Properties of analyzeImage\<close>

lemma fresh_id_greater: "a \<in> set rows \<Longrightarrow> a_id a < fresh_id rows"
  by (induction rows) (auto simp: fresh_id_def)

lemma fresh_id_unused: "\<forall>a \<in> set rows. a_id a \<noteq> fresh_id rows"
  using fresh_id_greater by fastforce

lemma createAnalysis_pending:
  "createAnalysis w (getAuthUserId w) Analyzing d =
     (fresh_id (analyses d),
      d\<lparr>analyses := analyses d @ [pending_row w (fresh_id (analyses d))]\<rparr>)"
  by (simp add: createAnalysis_def db_insert_analysis_def pending_row_def Let_def)

lemma db_get_last:
  "a_id r = fresh_id (analyses d) \<Longrightarrow>
   db_get (d\<lparr>analyses := analyses d @ [r]\<rparr>) (fresh_id (analyses d)) = Some r"
  using fresh_id_unused [of "analyses d"]
  by (simp add: db_get_def find_first_match)

lemma db_get_fresh: "db_get d (fresh_id (analyses d)) = None"
  using fresh_id_unused [of "analyses d"]
  by (auto simp: db_get_def find_None_iff)

lemma map_patch_old:
  "map (\<lambda>a. if a_id a = fresh_id rows then upd a else a) rows = rows"
  using fresh_id_unused [of rows] by (simp add: map_idI)

lemma db_patch_last:
  "a_id r = fresh_id (analyses d) \<Longrightarrow>
   db_patch (fresh_id (analyses d)) upd (d\<lparr>analyses := analyses d @ [r]\<rparr>) =
     Inr (d\<lparr>analyses := analyses d @ [upd r]\<rparr>)"
  by (simp add: db_patch_def map_patch_old)

lemma updateAnalysis_last:
  "a_id r = fresh_id (analyses d) \<Longrightarrow>
   updateAnalysis (fresh_id (analyses d)) dd cf sv sy t srcs st
       (d\<lparr>analyses := analyses d @ [r]\<rparr>) =
     Inr (d\<lparr>analyses := analyses d @
       [r\<lparr>detectedDisease := dd, confidence := cf, a_severity := sv, a_symptoms := sy,
           a_treatment := t, sources := Some srcs, status := st\<rparr>]\<rparr>)"
  by (simp add: updateAnalysis_def db_patch_last)

lemma persist_result_cases:
  "persist_result i r t d = Inr d' \<Longrightarrow>
   \<exists>dd cf sv sy. v_string (case get_prop r ''detectedDisease'' of Inr x \<Rightarrow> x | Inl e \<Rightarrow> None) = Some dd \<and>
     updateAnalysis i dd cf sv sy (ti_treatment t) (ti_sources t) Completed d = Inr d'"
  by (auto simp: persist_result_def split: sum.splits option.splits prod.splits)

lemma analyzeImage_try_cases:
  assumes "analyzeImage_try w img i d = (r, d', tr)"
  shows "(\<exists>e. r = Inl e \<and> d' = d \<and> db_writes tr = []) \<or>
         (r = Inr i \<and> db_writes tr = [Patch_analysis i Completed] \<and>
          (\<exists>dd cf sv sy tm srcs.
             updateAnalysis i dd cf sv sy tm srcs Completed d = Inr d'))"
proof (cases "vision_model w img")
  case (Inl e)
  with assms show ?thesis by (auto simp: analyzeImage_try_def db_writes_def)
next
  case (Inr content)
  show ?thesis
  proof (cases "content = None \<or> content = Some []")
    case True
    with Inr assms show ?thesis by (auto simp: analyzeImage_try_def db_writes_def)
  next
    case False
    then obtain reply where reply: "content = Some reply" "reply \<noteq> []" by (cases content) auto
    show ?thesis
    proof (cases "treatment_args (parse_analysis w reply)")
      case (Inl e)
      with Inr reply assms show ?thesis by (auto simp: analyzeImage_try_def db_writes_def)
    next
      case args: (Inr p)
      obtain dis syms where p: "p = (dis, syms)" by (cases p)
      obtain t tr0 where t: "getTreatmentInfo w dis syms = (Inr t, tr0)" "db_writes tr0 = []"
        using getTreatmentInfo_returns [of w dis syms] by blast
      show ?thesis
      proof (cases "persist_result i (parse_analysis w reply) t d")
        case (Inl e)
        with Inr reply args p t assms show ?thesis
          by (auto simp: analyzeImage_try_def db_writes_def)
      next
        case ok: (Inr d2)
        from Inr reply args p t ok assms
        have res: "r = Inr i" "d' = d2"
          "tr = Vision_completion img # tr0 @ [Patch_analysis i Completed]"
          by (auto simp: analyzeImage_try_def)
        from persist_result_cases [OF ok] res(2) have
          "\<exists>dd cf sv sy tm srcs.
             updateAnalysis i dd cf sv sy tm srcs Completed d = Inr d'"
          by blast
        moreover from res(3) t(2) have "db_writes tr = [Patch_analysis i Completed]"
          by (simp add: db_writes_def)
        ultimately show ?thesis using res(1) by blast
      qed
    qed
  qed
qed

lemma a_id_pending_row: "a_id (pending_row w i) = i"
  by (simp add: pending_row_def)

lemma analyzeImage_on_error:
  assumes "fst (analyzeImage_try w img (fresh_id (analyses d))
      (d\<lparr>analyses := analyses d @ [pending_row w (fresh_id (analyses d))]\<rparr>)) = Inl e"
  shows "fst (analyzeImage w img d) = Inl e \<and>
     fst (snd (analyzeImage w img d)) =
       d\<lparr>analyses := analyses d @ [failed_row w (fresh_id (analyses d))]\<rparr>"
proof -
  let ?i = "fresh_id (analyses d)"
  let ?d1 = "d\<lparr>analyses := analyses d @ [pending_row w ?i]\<rparr>"
  obtain r d2 tr where run: "analyzeImage_try w img ?i ?d1 = (r, d2, tr)"
    by (cases "analyzeImage_try w img ?i ?d1") auto
  with assms have r: "r = Inl e" by simp
  with analyzeImage_try_cases [OF run] have d2: "d2 = ?d1" by auto
  have upd: "updateAnalysis ?i ''Analysis Failed'' 0 Moderate [''Unable to analyze image'']
      retry_message [] Failed ?d1 = Inr (d\<lparr>analyses := analyses d @ [failed_row w ?i]\<rparr>)"
    using updateAnalysis_last [OF a_id_pending_row [of w ?i]] by (simp add: failed_row_def)
  show ?thesis
    using run r d2 upd by (simp add: analyzeImage_def createAnalysis_pending)
qed

lemma analyzeImage_on_success:
  assumes "fst (analyzeImage_try w img (fresh_id (analyses d))
      (d\<lparr>analyses := analyses d @ [pending_row w (fresh_id (analyses d))]\<rparr>)) = Inr r"
  shows "fst (analyzeImage w img d) = Inr r \<and>
     fst (snd (analyzeImage w img d)) =
       fst (snd (analyzeImage_try w img (fresh_id (analyses d))
         (d\<lparr>analyses := analyses d @ [pending_row w (fresh_id (analyses d))]\<rparr>)))"
proof -
  let ?i = "fresh_id (analyses d)"
  let ?d1 = "d\<lparr>analyses := analyses d @ [pending_row w ?i]\<rparr>"
  obtain r' d2 tr where run: "analyzeImage_try w img ?i ?d1 = (r', d2, tr)"
    by (cases "analyzeImage_try w img ?i ?d1") auto
  with assms have "r' = Inr r" by simp
  with run show ?thesis by (simp add: analyzeImage_def createAnalysis_pending)
qed

lemma try_vision_error:
  "vision_model w img = Inl e \<Longrightarrow> fst (analyzeImage_try w img i d) = Inl e"
  by (simp add: analyzeImage_try_def)

lemma try_empty_reply:
  "vision_model w img = Inr None \<or> vision_model w img = Inr (Some []) \<Longrightarrow>
   fst (analyzeImage_try w img i d) = Inl (Error ''No analysis received from AI'')"
  by (auto simp: analyzeImage_try_def)

lemma treatment_args_fallback:
  "treatment_args fallback_payload = Inr (''Analysis Error'', [''Unable to parse analysis results''])"
  by (simp add: treatment_args_def fallback_payload_def)

lemma persist_result_fallback:
  "persist_result i fallback_payload t d =
     updateAnalysis i ''Analysis Error'' 0 Moderate [''Unable to parse analysis results'']
       (ti_treatment t) (ti_sources t) Completed d"
  by (simp add: persist_result_def fallback_payload_def)

text \<open>
  C1. In every run of \<open>analyzeImage\<close> the writes to the analyses table are exactly two,
  both to the row with the new identifier, which no row had before: the insert with
  status "analyzing", then one patch, whose status is "completed" or "failed". The
  status is "completed" exactly when the handler returns the identifier and "failed"
  exactly when it throws. After the run the row has the patched status, and the rows
  that were there before are unchanged.
\<close>

theorem analyzeImage_status_transitions:
  "\<exists>r d' tr st a.
     analyzeImage w img d = (r, d', tr) \<and>
     db_get d (fresh_id (analyses d)) = None \<and>
     (\<exists>a0. db_get (snd (createAnalysis w (getAuthUserId w) Analyzing d))
            (fresh_id (analyses d)) = Some a0 \<and> status a0 = Analyzing) \<and>
     db_writes tr =
       [Insert_analysis (fresh_id (analyses d)) Analyzing,
        Patch_analysis (fresh_id (analyses d)) st] \<and>
     (st = Completed \<or> st = Failed) \<and>
     (st = Completed) = (r = Inr (fresh_id (analyses d))) \<and>
     (st = Failed) = (\<exists>e. r = Inl e) \<and>
     db_get d' (fresh_id (analyses d)) = Some a \<and> status a = st \<and>
     take (length (analyses d)) (analyses d') = analyses d \<and>
     length (analyses d') = Suc (length (analyses d))"
proof -
  let ?i = "fresh_id (analyses d)"
  let ?d1 = "d\<lparr>analyses := analyses d @ [pending_row w ?i]\<rparr>"
  have pid: "a_id (pending_row w ?i) = ?i" by (simp add: pending_row_def)
  have "db_get (snd (createAnalysis w (getAuthUserId w) Analyzing d)) ?i =
      Some (pending_row w ?i)"
    by (simp add: createAnalysis_pending db_get_last pid)
  moreover have "status (pending_row w ?i) = Analyzing" by (simp add: pending_row_def)
  ultimately have created: "\<exists>a0. db_get (snd (createAnalysis w (getAuthUserId w) Analyzing d)) ?i =
      Some a0 \<and> status a0 = Analyzing" by simp
  obtain r d2 tr where run: "analyzeImage_try w img ?i ?d1 = (r, d2, tr)"
    by (cases "analyzeImage_try w img ?i ?d1") auto
  from analyzeImage_try_cases [OF run] show ?thesis
  proof
    assume "\<exists>e. r = Inl e \<and> d2 = ?d1 \<and> db_writes tr = []"
    then obtain e where e: "r = Inl e" "d2 = ?d1" "db_writes tr = []" by blast
    let ?a = "(pending_row w ?i)\<lparr>detectedDisease := ''Analysis Failed'', confidence := 0,
        a_severity := Moderate, a_symptoms := [''Unable to analyze image''],
        a_treatment := retry_message, sources := Some [], status := Failed\<rparr>"
    have upd: "updateAnalysis ?i ''Analysis Failed'' 0 Moderate [''Unable to analyze image'']
        retry_message [] Failed ?d1 = Inr (d\<lparr>analyses := analyses d @ [?a]\<rparr>)"
      using updateAnalysis_last [OF pid] by simp
    have res: "analyzeImage w img d =
        (Inl e, d\<lparr>analyses := analyses d @ [?a]\<rparr>,
         Insert_analysis ?i Analyzing # tr @ [Patch_analysis ?i Failed])"
      using run e upd by (simp add: analyzeImage_def createAnalysis_pending)
    have "db_get (d\<lparr>analyses := analyses d @ [?a]\<rparr>) ?i = Some ?a"
      by (rule db_get_last) (simp add: pid)
    moreover have "status ?a = Failed" by simp
    moreover have "db_writes (Insert_analysis ?i Analyzing # tr @ [Patch_analysis ?i Failed]) =
        [Insert_analysis ?i Analyzing, Patch_analysis ?i Failed]"
      using e(3) by (simp add: db_writes_def)
    ultimately show ?thesis using res created db_get_fresh [of d] by simp
  next
    assume "r = Inr ?i \<and> db_writes tr = [Patch_analysis ?i Completed] \<and>
      (\<exists>dd cf sv sy tm srcs.
         updateAnalysis ?i dd cf sv sy tm srcs Completed ?d1 = Inr d2)"
    then obtain dd cf sv sy tm srcs where ok: "r = Inr ?i"
      "db_writes tr = [Patch_analysis ?i Completed]"
      "updateAnalysis ?i dd cf sv sy tm srcs Completed ?d1 = Inr d2"
      by blast
    let ?a = "(pending_row w ?i)\<lparr>detectedDisease := dd, confidence := cf,
        a_severity := sv, a_symptoms := sy, a_treatment := tm,
        sources := Some srcs, status := Completed\<rparr>"
    have d2: "d2 = d\<lparr>analyses := analyses d @ [?a]\<rparr>"
      using ok(3) updateAnalysis_last [OF pid, of dd cf sv sy tm srcs Completed]
      by simp
    have res: "analyzeImage w img d = (Inr ?i, d2, Insert_analysis ?i Analyzing # tr)"
      using run ok(1) by (simp add: analyzeImage_def createAnalysis_pending)
    have "db_get d2 ?i = Some ?a"
      unfolding d2 by (rule db_get_last) (simp add: pid)
    moreover have "status ?a = Completed" by simp
    moreover have "db_writes (Insert_analysis ?i Analyzing # tr) =
        [Insert_analysis ?i Analyzing, Patch_analysis ?i Completed]"
      using ok(2) by (simp add: db_writes_def)
    ultimately show ?thesis using res created db_get_fresh [of d] d2 by simp
  qed
qed

text \<open>
  C3. Every error of the \<open>try\<close> block of \<open>analyzeImage\<close> is thrown again by the handler
  as it is: the error of the model call, the error "No analysis received from AI" of an
  absent or empty reply, and any later error of the block. Whenever the handler throws,
  the row it created has status "failed", the treatment text "Please try again with a
  clearer image of the turmeric leaf.", and the other fixed values of the \<open>catch\<close> block.
\<close>

theorem analyzeImage_failure_marks_failed:
  "(vision_model w img = Inl e \<longrightarrow> fst (analyzeImage w img d) = Inl e) \<and>
   (vision_model w img = Inr None \<or> vision_model w img = Inr (Some []) \<longrightarrow>
      fst (analyzeImage w img d) = Inl (Error ''No analysis received from AI'')) \<and>
   (fst (analyzeImage_try w img (fst (createAnalysis w (getAuthUserId w) Analyzing d))
          (snd (createAnalysis w (getAuthUserId w) Analyzing d))) = Inl e \<longrightarrow>
      fst (analyzeImage w img d) = Inl e) \<and>
   (fst (analyzeImage w img d) = Inl e \<longrightarrow>
      (\<exists>a. db_get (fst (snd (analyzeImage w img d))) (fresh_id (analyses d)) = Some a \<and>
           status a = Failed \<and>
           a_treatment a = ''Please try again with a clearer image of the turmeric leaf.'' \<and>
           detectedDisease a = ''Analysis Failed'' \<and> confidence a = 0 \<and>
           a_severity a = Moderate \<and> a_symptoms a = [''Unable to analyze image''] \<and>
           sources a = Some []))"
proof -
  let ?i = "fresh_id (analyses d)"
  let ?d1 = "d\<lparr>analyses := analyses d @ [pending_row w ?i]\<rparr>"
  have a: "vision_model w img = Inl e \<longrightarrow> fst (analyzeImage w img d) = Inl e"
    using analyzeImage_on_error [of w img d e] try_vision_error [of w img e ?i ?d1] by simp
  have b: "vision_model w img = Inr None \<or> vision_model w img = Inr (Some []) \<longrightarrow>
      fst (analyzeImage w img d) = Inl (Error ''No analysis received from AI'')"
    using analyzeImage_on_error [of w img d "Error ''No analysis received from AI''"]
      try_empty_reply [of w img ?i ?d1] by blast
  have c: "fst (analyzeImage_try w img (fst (createAnalysis w (getAuthUserId w) Analyzing d))
          (snd (createAnalysis w (getAuthUserId w) Analyzing d))) = Inl e \<longrightarrow>
      fst (analyzeImage w img d) = Inl e"
    using analyzeImage_on_error [of w img d e] by (simp add: createAnalysis_pending)
  have d: "fst (analyzeImage w img d) = Inl e \<longrightarrow>
      (\<exists>a. db_get (fst (snd (analyzeImage w img d))) ?i = Some a \<and>
           status a = Failed \<and>
           a_treatment a = ''Please try again with a clearer image of the turmeric leaf.'' \<and>
           detectedDisease a = ''Analysis Failed'' \<and> confidence a = 0 \<and>
           a_severity a = Moderate \<and> a_symptoms a = [''Unable to analyze image''] \<and>
           sources a = Some [])"
  proof
    assume fails: "fst (analyzeImage w img d) = Inl e"
    have "\<exists>e'. fst (analyzeImage_try w img ?i ?d1) = Inl e'"
    proof (cases "fst (analyzeImage_try w img ?i ?d1)")
      case (Inl e')
      then show ?thesis by blast
    next
      case (Inr r)
      from analyzeImage_on_success [OF Inr] fails show ?thesis by simp
    qed
    then obtain e' where "fst (analyzeImage_try w img ?i ?d1) = Inl e'" by blast
    from analyzeImage_on_error [OF this]
    have db: "fst (snd (analyzeImage w img d)) = d\<lparr>analyses := analyses d @ [failed_row w ?i]\<rparr>"
      by simp
    have "db_get (d\<lparr>analyses := analyses d @ [failed_row w ?i]\<rparr>) ?i = Some (failed_row w ?i)"
      by (rule db_get_last) (simp add: failed_row_def pending_row_def)
    with db show "\<exists>a. db_get (fst (snd (analyzeImage w img d))) ?i = Some a \<and>
           status a = Failed \<and>
           a_treatment a = ''Please try again with a clearer image of the turmeric leaf.'' \<and>
           detectedDisease a = ''Analysis Failed'' \<and> confidence a = 0 \<and>
           a_severity a = Moderate \<and> a_symptoms a = [''Unable to analyze image''] \<and>
           sources a = Some []"
      by (simp add: failed_row_def retry_message_def)
  qed
  from a b c d show ?thesis by blast
qed

lemma example_null_reply:
  "fst (analyzeImage_try (example_world\<lparr>vision_model := (\<lambda>img. Inr (Some ''null''))\<rparr>)
         ''data:image/png;base64,AAAA'' i d) =
     Inl (TypeError (null_read_message ''detectedDisease''))"
  by (simp add: analyzeImage_try_def example_world_def parse_analysis_def jsonString_of_def
      json_match_def example_parse_def treatment_args_def)

theorem analyzeImage_failure_marks_failed_witness:
  "vision_model (example_world\<lparr>vision_model := (\<lambda>img. Inl (Error ''service unavailable''))\<rparr>)
     ''data:image/png;base64,AAAA'' = Inl (Error ''service unavailable'') \<and>
   fst (analyzeImage
          (example_world\<lparr>vision_model := (\<lambda>img. Inl (Error ''service unavailable''))\<rparr>)
          ''data:image/png;base64,AAAA'' empty_db) = Inl (Error ''service unavailable'') \<and>
   (\<exists>a. db_get (fst (snd (analyzeImage
            (example_world\<lparr>vision_model := (\<lambda>img. Inl (Error ''service unavailable''))\<rparr>)
            ''data:image/png;base64,AAAA'' empty_db))) (fresh_id (analyses empty_db)) = Some a \<and>
        status a = Failed \<and>
        a_treatment a = ''Please try again with a clearer image of the turmeric leaf.'') \<and>
   vision_model (example_world\<lparr>vision_model := (\<lambda>img. Inr (Some []))\<rparr>)
     ''data:image/png;base64,AAAA'' = Inr (Some []) \<and>
   fst (analyzeImage (example_world\<lparr>vision_model := (\<lambda>img. Inr (Some []))\<rparr>)
          ''data:image/png;base64,AAAA'' empty_db) =
     Inl (Error ''No analysis received from AI'') \<and>
   fst (analyzeImage (example_world\<lparr>vision_model := (\<lambda>img. Inr (Some ''null''))\<rparr>)
          ''data:image/png;base64,AAAA'' empty_db) =
     Inl (TypeError (null_read_message ''detectedDisease''))"
proof -
  let ?img = "''data:image/png;base64,AAAA''"
  let ?w1 = "example_world\<lparr>vision_model := (\<lambda>img. Inl (Error ''service unavailable''))\<rparr>"
  let ?w2 = "example_world\<lparr>vision_model := (\<lambda>img. Inr (Some []))\<rparr>"
  let ?w3 = "example_world\<lparr>vision_model := (\<lambda>img. Inr (Some ''null''))\<rparr>"
  have one: "fst (analyzeImage ?w1 ?img empty_db) = Inl (Error ''service unavailable'')"
    using analyzeImage_failure_marks_failed
      [where w = ?w1 and img = ?img and d = empty_db and e = "Error ''service unavailable''"]
    by simp
  have one_row: "\<exists>a. db_get (fst (snd (analyzeImage ?w1 ?img empty_db)))
        (fresh_id (analyses empty_db)) = Some a \<and> status a = Failed \<and>
        a_treatment a = ''Please try again with a clearer image of the turmeric leaf.''"
    using one analyzeImage_failure_marks_failed
      [where w = ?w1 and img = ?img and d = empty_db and e = "Error ''service unavailable''"]
    by blast
  have two: "fst (analyzeImage ?w2 ?img empty_db) = Inl (Error ''No analysis received from AI'')"
    using analyzeImage_failure_marks_failed [where w = ?w2 and img = ?img and d = empty_db]
    by simp
  have three: "fst (analyzeImage ?w3 ?img empty_db) =
      Inl (TypeError (null_read_message ''detectedDisease''))"
    using example_null_reply analyzeImage_failure_marks_failed
      [where w = ?w3 and img = ?img and d = empty_db
        and e = "TypeError (null_read_message ''detectedDisease'')"]
    by simp
  from one one_row two three show ?thesis by simp
qed

text \<open>
  C4. When the model's reply is a non-empty text and \<open>JSON.parse\<close> throws on what the
  handler gives it (the span from the first opening brace to the last closing brace
  when the pattern matches, the whole text when it does not), the parsed result is the
  fixed placeholder, the handler returns the identifier of the new row instead of
  throwing, and the row has status "completed" with the placeholder's disease name,
  confidence 0, severity "moderate" and symptom list, and the treatment text that
  \<open>getTreatmentInfo\<close> returns for them.
\<close>

theorem analyzeImage_unparseable_reply_completes:
  assumes "vision_model w img = Inr (Some reply)" and "reply \<noteq> []"
    and "(\<exists>m. json_match reply = Some m \<and> JSON_parse w m = None) \<or>
         (json_match reply = None \<and> JSON_parse w reply = None)"
  shows "parse_analysis w reply = fallback_payload \<and>
     fst (analyzeImage w img d) = Inr (fresh_id (analyses d)) \<and>
     (\<exists>a. db_get (fst (snd (analyzeImage w img d))) (fresh_id (analyses d)) = Some a \<and>
          status a = Completed \<and> detectedDisease a = ''Analysis Error'' \<and>
          confidence a = 0 \<and> a_severity a = Moderate \<and>
          a_symptoms a = [''Unable to parse analysis results''] \<and>
          fst (getTreatmentInfo w ''Analysis Error'' [''Unable to parse analysis results'']) =
            Inr \<lparr>ti_treatment = a_treatment a, ti_sources = []\<rparr>)"
proof -
  let ?i = "fresh_id (analyses d)"
  let ?d1 = "d\<lparr>analyses := analyses d @ [pending_row w ?i]\<rparr>"
  from assms(3) have parse: "parse_analysis w reply = fallback_payload"
    by (auto simp: parse_analysis_def jsonString_of_def)
  obtain t tr0 where t: "getTreatmentInfo w ''Analysis Error'' [''Unable to parse analysis results'']
      = (Inr t, tr0)" "ti_sources t = []"
    using getTreatmentInfo_returns
      [of w "''Analysis Error''" "[''Unable to parse analysis results'']"] by blast
  let ?a = "(pending_row w ?i)\<lparr>detectedDisease := ''Analysis Error'', confidence := 0,
      a_severity := Moderate, a_symptoms := [''Unable to parse analysis results''],
      a_treatment := ti_treatment t, sources := Some (ti_sources t), status := Completed\<rparr>"
  have upd: "persist_result ?i fallback_payload t ?d1 = Inr (d\<lparr>analyses := analyses d @ [?a]\<rparr>)"
    using updateAnalysis_last [OF a_id_pending_row [of w ?i]]
    by (simp add: persist_result_fallback)
  have run: "analyzeImage_try w img ?i ?d1 =
      (Inr ?i, d\<lparr>analyses := analyses d @ [?a]\<rparr>,
       Vision_completion img # tr0 @ [Patch_analysis ?i Completed])"
    using assms(1,2) parse t(1) upd
    by (simp add: analyzeImage_try_def treatment_args_fallback)
  then have "fst (analyzeImage_try w img ?i ?d1) = Inr ?i" by simp
  from analyzeImage_on_success [OF this] run
  have res: "fst (analyzeImage w img d) = Inr ?i"
    "fst (snd (analyzeImage w img d)) = d\<lparr>analyses := analyses d @ [?a]\<rparr>"
    by simp_all
  have "db_get (d\<lparr>analyses := analyses d @ [?a]\<rparr>) ?i = Some ?a"
    by (rule db_get_last) (simp add: pending_row_def)
  moreover have "Inr \<lparr>ti_treatment = a_treatment ?a, ti_sources = []\<rparr> = (Inr t :: error + treatment_info)"
    using t(2) by simp
  ultimately show ?thesis using parse res t(1) by simp
qed

theorem analyzeImage_unparseable_reply_completes_witness:
  "vision_model example_world ''data:image/png;base64,AAAA'' =
     Inr (Some ''The leaf looks unwell'') \<and>
   json_match ''The leaf looks unwell'' = None \<and>
   JSON_parse example_world ''The leaf looks unwell'' = None \<and>
   fst (analyzeImage example_world ''data:image/png;base64,AAAA'' empty_db) =
     Inr (fresh_id (analyses empty_db)) \<and>
   (\<exists>a. db_get (fst (snd (analyzeImage example_world ''data:image/png;base64,AAAA'' empty_db)))
          (fresh_id (analyses empty_db)) = Some a \<and>
        status a = Completed \<and> detectedDisease a = ''Analysis Error'') \<and>
   json_match ''Result: {unclear}'' = Some ''{unclear}'' \<and>
   JSON_parse example_world ''{unclear}'' = None \<and>
   fst (analyzeImage (example_world\<lparr>vision_model := (\<lambda>img. Inr (Some ''Result: {unclear}''))\<rparr>)
          ''data:image/png;base64,AAAA'' empty_db) = Inr (fresh_id (analyses empty_db))"
proof -
  let ?img = "''data:image/png;base64,AAAA''"
  let ?w2 = "example_world\<lparr>vision_model := (\<lambda>img. Inr (Some ''Result: {unclear}''))\<rparr>"
  have reply: "vision_model example_world ?img = Inr (Some ''The leaf looks unwell'')"
    by (simp add: example_world_def)
  have no_span: "json_match ''The leaf looks unwell'' = None"
    by (simp add: json_match_def)
  have no_json: "JSON_parse example_world ''The leaf looks unwell'' = None"
    by (simp add: example_world_def example_parse_def)
  have span: "json_match ''Result: {unclear}'' = Some ''{unclear}''"
    by (simp add: json_match_def)
  have bad_span: "JSON_parse example_world ''{unclear}'' = None"
    by (simp add: example_world_def example_parse_def)
  have one: "fst (analyzeImage example_world ?img empty_db) = Inr (fresh_id (analyses empty_db)) \<and>
      (\<exists>a. db_get (fst (snd (analyzeImage example_world ?img empty_db)))
          (fresh_id (analyses empty_db)) = Some a \<and>
        status a = Completed \<and> detectedDisease a = ''Analysis Error'')"
    using analyzeImage_unparseable_reply_completes
      [where w = example_world and img = ?img and reply = "''The leaf looks unwell''"
        and d = empty_db] reply no_span no_json
    by auto
  have two: "fst (analyzeImage ?w2 ?img empty_db) = Inr (fresh_id (analyses empty_db))"
    using analyzeImage_unparseable_reply_completes
      [where w = ?w2 and img = ?img and reply = "''Result: {unclear}''" and d = empty_db]
      span bad_span
    by (simp add: example_world_def)
  from reply no_span no_json span bad_span one two show ?thesis by simp
qed

section \<open>Properties of getUserAnalyses\<close>

lemma sorted_desc_by_time:
  "sorted_wrt (\<lambda>a b. creationTime b \<le> creationTime a) (rev (sort_key creationTime xs))"
proof -
  have "sorted (map creationTime (sort_key creationTime xs))" by (rule sorted_sort_key)
  then have "sorted_wrt (\<lambda>a b. creationTime a \<le> creationTime b) (sort_key creationTime xs)"
    by (simp add: sorted_map)
  then show ?thesis by (simp add: sorted_wrt_rev)
qed

lemma getUserAnalyses_Some:
  "getUserAnalyses (Some uid) d =
     take 10 (rev (sort_key creationTime (filter (\<lambda>a. userId a = Some uid) (analyses d))))"
  by (simp add: getUserAnalyses_def)

lemma map_sort_key: "map f (sort_key f xs) = sort (map f xs)"
proof -
  have "mset (map f (sort_key f xs)) = mset (map f xs)" by simp
  moreover have "sorted (map f (sort_key f xs))" by (rule sorted_sort_key)
  ultimately show ?thesis by (rule properties_for_sort [symmetric])
qed

text \<open>
  C8. For an authenticated user, \<open>getUserAnalyses\<close> returns the ten most recent analyses
  of that user, newest first. The result has as many rows as the user owns, up to ten.
  It is a selection of the user's rows, each taken at most as often as the table holds
  it, so every row of the result is a row of the table owned by the user. The creation
  times descend along the result, and they are the ten largest creation times of the
  user's rows in descending order. Every row of the user that the selection leaves out
  is no newer than any row of the result. When the user owns at most ten rows the
  result holds exactly the rows the user owns, each as often as the table.
\<close>

theorem getUserAnalyses_recent_ten:
  "length (getUserAnalyses (Some uid) d) =
     min 10 (length (filter (\<lambda>a. userId a = Some uid) (analyses d))) \<and>
   mset (getUserAnalyses (Some uid) d) \<subseteq>#
     mset (filter (\<lambda>a. userId a = Some uid) (analyses d)) \<and>
   (\<forall>a \<in> set (getUserAnalyses (Some uid) d). a \<in> set (analyses d) \<and> userId a = Some uid) \<and>
   sorted_wrt (\<lambda>a b. creationTime b \<le> creationTime a) (getUserAnalyses (Some uid) d) \<and>
   map creationTime (getUserAnalyses (Some uid) d) =
     take 10 (rev (sort (map creationTime
       (filter (\<lambda>a. userId a = Some uid) (analyses d))))) \<and>
   (\<forall>a \<in># mset (filter (\<lambda>a. userId a = Some uid) (analyses d)) -
         mset (getUserAnalyses (Some uid) d).
      \<forall>b \<in> set (getUserAnalyses (Some uid) d). creationTime a \<le> creationTime b) \<and>
   (\<forall>a \<in> set (analyses d). userId a = Some uid \<longrightarrow> a \<notin> set (getUserAnalyses (Some uid) d) \<longrightarrow>
      (\<forall>b \<in> set (getUserAnalyses (Some uid) d). creationTime a \<le> creationTime b)) \<and>
   (length (filter (\<lambda>a. userId a = Some uid) (analyses d)) \<le> 10 \<longrightarrow>
      mset (getUserAnalyses (Some uid) d) =
        mset (filter (\<lambda>a. userId a = Some uid) (analyses d))) \<and>
   (length (filter (\<lambda>a. userId a = Some uid) (analyses d)) \<le> 10 \<longrightarrow>
      set (getUserAnalyses (Some uid) d) = {a \<in> set (analyses d). userId a = Some uid})"
proof -
  let ?own = "filter (\<lambda>a. userId a = Some uid) (analyses d)"
  let ?xs = "rev (sort_key creationTime ?own)"
  let ?desc = "\<lambda>a b. creationTime b \<le> creationTime a"
  have res: "getUserAnalyses (Some uid) d = take 10 ?xs" by (rule getUserAnalyses_Some)
  have set_xs: "set ?xs = {a \<in> set (analyses d). userId a = Some uid}" by auto
  have len: "length (take 10 ?xs) = min 10 (length ?own)" by simp
  have parts: "take 10 ?xs @ drop 10 ?xs = ?xs" by (rule append_take_drop_id)
  have "mset ?own = mset ?xs" by simp
  also have "\<dots> = mset (take 10 ?xs @ drop 10 ?xs)" by (simp only: parts)
  finally have pieces: "mset ?own = mset (take 10 ?xs) + mset (drop 10 ?xs)"
    by (simp only: mset_append)
  have sub: "mset (take 10 ?xs) \<subseteq># mset ?own"
    by (simp only: pieces mset_subset_eq_add_left)
  have rest: "mset ?own - mset (take 10 ?xs) = mset (drop 10 ?xs)"
    by (simp only: pieces add_diff_cancel_left')
  have own: "\<forall>a \<in> set (take 10 ?xs). a \<in> set (analyses d) \<and> userId a = Some uid"
  proof
    fix a
    assume "a \<in> set (take 10 ?xs)"
    then have "a \<in> set ?xs" by (rule in_set_takeD)
    then show "a \<in> set (analyses d) \<and> userId a = Some uid" by simp
  qed
  have desc: "sorted_wrt ?desc ?xs" by (rule sorted_desc_by_time)
  then have desc_take: "sorted_wrt ?desc (take 10 ?xs)" by (rule sorted_wrt_take)
  have "map creationTime (take 10 ?xs) = take 10 (rev (map creationTime (sort_key creationTime ?own)))"
    by (simp only: take_map rev_map)
  then have times: "map creationTime (take 10 ?xs) = take 10 (rev (sort (map creationTime ?own)))"
    by (simp only: map_sort_key)
  from desc have "sorted_wrt ?desc (take 10 ?xs @ drop 10 ?xs)" by (simp only: parts)
  then have across: "\<forall>x \<in> set (take 10 ?xs). \<forall>y \<in> set (drop 10 ?xs). ?desc x y"
    by (simp only: sorted_wrt_append) simp
  have left_out: "\<forall>a \<in># mset ?own - mset (take 10 ?xs).
      \<forall>b \<in> set (take 10 ?xs). creationTime a \<le> creationTime b"
  proof (intro ballI)
    fix a b
    assume "a \<in># mset ?own - mset (take 10 ?xs)" and b: "b \<in> set (take 10 ?xs)"
    then have "a \<in> set (drop 10 ?xs)" by (simp only: rest set_mset_mset)
    with across b show "creationTime a \<le> creationTime b" by blast
  qed
  have recent: "\<forall>a \<in> set (analyses d). userId a = Some uid \<longrightarrow> a \<notin> set (take 10 ?xs) \<longrightarrow>
      (\<forall>b \<in> set (take 10 ?xs). creationTime a \<le> creationTime b)"
  proof (intro ballI impI)
    fix a b
    assume a: "a \<in> set (analyses d)" "userId a = Some uid" "a \<notin> set (take 10 ?xs)"
      and b: "b \<in> set (take 10 ?xs)"
    from a(1,2) have "a \<in> set ?xs" by simp
    then have "a \<in> set (take 10 ?xs) \<union> set (drop 10 ?xs)"
      by (simp only: set_append [symmetric] parts)
    with a(3) have "a \<in> set (drop 10 ?xs)" by blast
    with across b show "creationTime a \<le> creationTime b" by blast
  qed
  have whole: "length ?own \<le> 10 \<longrightarrow> take 10 ?xs = ?xs" by simp
  have all_mset: "length ?own \<le> 10 \<longrightarrow> mset (take 10 ?xs) = mset ?own"
  proof
    assume "length ?own \<le> 10"
    with whole have "take 10 ?xs = ?xs" by (rule mp)
    then have "mset (take 10 ?xs) = mset ?xs" by (simp only:)
    then show "mset (take 10 ?xs) = mset ?own" by simp
  qed
  have all: "length ?own \<le> 10 \<longrightarrow> set (take 10 ?xs) = {a \<in> set (analyses d). userId a = Some uid}"
  proof
    assume "length ?own \<le> 10"
    with whole have "take 10 ?xs = ?xs" by (rule mp)
    with set_xs show "set (take 10 ?xs) = {a \<in> set (analyses d). userId a = Some uid}"
      by (simp only:)
  qed
  show ?thesis
    unfolding res
    using len sub own desc_take times left_out recent all_mset all
    by (intro conjI) assumption+
qed

lemma example_row_fields:
  "creationTime (example_row uid i) = i"
  "userId (example_row uid i) = Some uid"
  "(example_row uid i = example_row uid' j) = (uid = uid' \<and> i = j)"
  by (auto simp: example_row_def)

lemma example_history:
  "getUserAnalyses (Some 7) example_db =
     [example_row 7 12, example_row 7 11, example_row 7 10, example_row 7 9, example_row 7 8,
      example_row 7 7, example_row 7 6, example_row 7 5, example_row 7 3, example_row 7 2]"
  by (simp add: getUserAnalyses_def example_db_def example_row_fields)

lemma example_left_out:
  "mset (filter (\<lambda>a. userId a = Some 7) (analyses example_db)) -
     mset (getUserAnalyses (Some 7) example_db) = {#example_row 7 1#}"
  by (simp add: example_history) (simp add: example_db_def example_row_fields)

theorem getUserAnalyses_recent_ten_witness:
  "getUserAnalyses (Some 7) example_db =
     [example_row 7 12, example_row 7 11, example_row 7 10, example_row 7 9, example_row 7 8,
      example_row 7 7, example_row 7 6, example_row 7 5, example_row 7 3, example_row 7 2] \<and>
   length (filter (\<lambda>a. userId a = Some 7) (analyses example_db)) = 11 \<and>
   example_row 7 1 \<in> set (analyses example_db) \<and> userId (example_row 7 1) = Some 7 \<and>
   example_row 7 1 \<notin> set (getUserAnalyses (Some 7) example_db) \<and>
   example_row 7 1 \<in># mset (filter (\<lambda>a. userId a = Some 7) (analyses example_db)) -
     mset (getUserAnalyses (Some 7) example_db) \<and>
   list_all (\<lambda>b. creationTime (example_row 7 1) \<le> creationTime b)
     (getUserAnalyses (Some 7) example_db) \<and>
   length (filter (\<lambda>a. userId a = Some 8) (analyses example_db)) \<le> 10 \<and>
   mset (getUserAnalyses (Some 8) example_db) = {#example_row 8 4#} \<and>
   set (getUserAnalyses (Some 8) example_db) = {example_row 8 4}"
proof -
  have count: "length (filter (\<lambda>a. userId a = Some 7) (analyses example_db)) = 11"
    by (simp add: example_db_def example_row_fields)
  have old: "example_row 7 1 \<in> set (analyses example_db)" "userId (example_row 7 1) = Some 7"
    by (simp_all add: example_db_def example_row_fields)
  have left_out: "example_row 7 1 \<notin> set (getUserAnalyses (Some 7) example_db)"
    by (simp add: example_history example_row_fields)
  have dropped: "example_row 7 1 \<in>#
      mset (filter (\<lambda>a. userId a = Some 7) (analyses example_db)) -
      mset (getUserAnalyses (Some 7) example_db)"
    by (simp only: example_left_out) simp
  from getUserAnalyses_recent_ten [of 7 example_db] dropped
  have "\<forall>b \<in> set (getUserAnalyses (Some 7) example_db).
      creationTime (example_row 7 1) \<le> creationTime b"
    by blast
  then have older: "list_all (\<lambda>b. creationTime (example_row 7 1) \<le> creationTime b)
      (getUserAnalyses (Some 7) example_db)"
    by (simp add: list_all_iff)
  have few: "length (filter (\<lambda>a. userId a = Some 8) (analyses example_db)) \<le> 10"
    by (simp add: example_db_def example_row_fields)
  with getUserAnalyses_recent_ten [of 8 example_db]
  have "mset (getUserAnalyses (Some 8) example_db) =
      mset (filter (\<lambda>a. userId a = Some 8) (analyses example_db))"
    by blast
  also have "\<dots> = {#example_row 8 4#}"
    by (simp add: example_db_def example_row_fields)
  finally have other: "mset (getUserAnalyses (Some 8) example_db) = {#example_row 8 4#}" .
  then have "set_mset (mset (getUserAnalyses (Some 8) example_db)) = set_mset {#example_row 8 4#}"
    by (simp only:)
  then have other_set: "set (getUserAnalyses (Some 8) example_db) = {example_row 8 4}" by simp
  from example_history count old left_out dropped older few other other_set
  show ?thesis by simp
qed

text \<open>
  C9. Without an authenticated user, \<open>getUserAnalyses\<close> returns the empty list, whatever
  the table holds.
\<close>

theorem getUserAnalyses_unauthenticated: "getUserAnalyses None d = []"
  by (simp add: getUserAnalyses_def)

section \<open>Properties of the upload handler\<close>

text \<open>
  C6. For a file whose MIME type does not start with "image/", \<open>handleImageUpload\<close> sets
  the error "Please select a valid image file" and the status ERROR and returns without
  asking for anything: no read of the file is started, so the reader's callback, which
  holds the base64 data and calls the backend, never runs in that upload.
\<close>

theorem handleImageUpload_rejects_non_image:
  assumes "\<not> startsWith (file_type f) ''image/''"
  shows "handleImageUpload thrown (Some f) s =
      (s\<lparr>ui_error := Some ''Please select a valid image file'', ui_status := ERROR\<rparr>, []) \<and>
     upload_session thrown read (Some f) s =
      (s\<lparr>ui_error := Some ''Please select a valid image file'', ui_status := ERROR\<rparr>, [])"
  using assms by (simp add: handleImageUpload_def upload_session_def)

theorem handleImageUpload_rejects_non_image_witness:
  "\<not> startsWith (file_type pdf_file) ''image/'' \<and>
   handleImageUpload None (Some pdf_file) idle_state =
     (\<lparr>ui_status = ERROR, selectedImage = None,
       ui_error = Some ''Please select a valid image file''\<rparr>, []) \<and>
   upload_session None (Some ''data:application/pdf;base64,AAAA'') (Some pdf_file) idle_state =
     (\<lparr>ui_status = ERROR, selectedImage = None,
       ui_error = Some ''Please select a valid image file''\<rparr>, [])"
proof -
  have not_image: "\<not> startsWith (file_type pdf_file) ''image/''"
    by (simp add: pdf_file_def)
  from handleImageUpload_rejects_non_image
    [OF not_image, of None idle_state "Some ''data:application/pdf;base64,AAAA''"] not_image
  show ?thesis by (simp add: idle_state_def)
qed

text \<open>
  C7, as the code has it. The type check comes first. For a file whose MIME type starts
  with "image/" and whose size is strictly more than 10 * 1024 * 1024 bytes,
  \<open>handleImageUpload\<close> sets the error "Image size must be less than 10MB" and the status
  ERROR and asks for nothing. A file of 10 * 1024 * 1024 bytes or less never gets that
  error; when its type starts with "image/" and nothing throws, the handler clears the
  error, sets the status ANALYZING and starts reading the file.
\<close>

theorem handleImageUpload_size_limit:
  "(startsWith (file_type f) ''image/'' \<and> file_size f > 10 * 1024 * 1024 \<longrightarrow>
      handleImageUpload thrown (Some f) s =
        (s\<lparr>ui_error := Some ''Image size must be less than 10MB'', ui_status := ERROR\<rparr>, [])) \<and>
   (file_size f \<le> 10 * 1024 * 1024 \<longrightarrow>
      ui_error (fst (handleImageUpload thrown (Some f) s)) \<noteq>
        Some ''Image size must be less than 10MB'') \<and>
   (startsWith (file_type f) ''image/'' \<and> file_size f \<le> 10 * 1024 * 1024 \<longrightarrow>
      handleImageUpload None (Some f) s =
        (s\<lparr>ui_error := None, ui_status := ANALYZING\<rparr>, [ReadAsDataURL f]))"
  by (simp add: handleImageUpload_def split: option.splits)

theorem handleImageUpload_size_limit_witness:
  "startsWith (file_type \<lparr>file_type = ''image/png'', file_size = 10485761\<rparr>) ''image/'' \<and>
   handleImageUpload None (Some \<lparr>file_type = ''image/png'', file_size = 10485761\<rparr>) idle_state =
     (\<lparr>ui_status = ERROR, selectedImage = None,
       ui_error = Some ''Image size must be less than 10MB''\<rparr>, []) \<and>
   handleImageUpload None (Some \<lparr>file_type = ''image/png'', file_size = 10485760\<rparr>) idle_state =
     (\<lparr>ui_status = ANALYZING, selectedImage = None, ui_error = None\<rparr>,
      [ReadAsDataURL \<lparr>file_type = ''image/png'', file_size = 10485760\<rparr>]) \<and>
   ui_error (fst (handleImageUpload None
      (Some \<lparr>file_type = ''image/png'', file_size = 10485760\<rparr>) idle_state)) \<noteq>
     Some ''Image size must be less than 10MB''"
  using handleImageUpload_size_limit
      [of "\<lparr>file_type = ''image/png'', file_size = 10485761\<rparr>" None idle_state]
    handleImageUpload_size_limit
      [of "\<lparr>file_type = ''image/png'', file_size = 10485760\<rparr>" None idle_state]
  by (simp add: idle_state_def)

text \<open>
  C7 as stated fails for a file over the limit that is not an image: a PDF of
  10485761 bytes is rejected by the type check, with the type message.
\<close>

theorem handleImageUpload_size_counterexample:
  "file_size pdf_file > 10 * 1024 * 1024 \<and>
   ui_error (fst (handleImageUpload None (Some pdf_file) idle_state)) =
     Some ''Please select a valid image file'' \<and>
   ui_error (fst (handleImageUpload None (Some pdf_file) idle_state)) \<noteq>
     Some ''Image size must be less than 10MB''"
  by (simp add: handleImageUpload_def pdf_file_def idle_state_def)

end
